theory Spec2Isabelle
  imports Main "HOL-Library.Char_ord" "HOL-Library.List_Lexorder" "HOL-Library.Product_Lexorder"
begin

section \<open>Top-n rankers of \<^verbatim>\<open>utils_topn.py\<close>\<close>

text \<open>
  The module holds two functions over a pandas DataFrame,
  \<^verbatim>\<open>get_top_n_by_history\<close> and \<^verbatim>\<open>get_top_n_by_news\<close>. Both group the rows by a
  key column, compute one number per group, sort the groups by that number in descending
  order, keep the first \<open>n\<close> of them and return the rows of the kept groups.

  The pandas operations the two functions call are modelled here as list functions, one
  definition per call, with the defaults the source relies on written out.
\<close>

subsection \<open>Cells, frames and series\<close>

text \<open>
  A cell is a missing value (\<open>NaN\<close>, which stands for both \<^verbatim>\<open>None\<close> and \<^verbatim>\<open>NaN\<close>), a
  number or a text. Numbers are unbounded integers, as Python's are. A frame has its
  column names and its rows in order; each row holds one cell per column, in column order.
\<close>

datatype cell = NaN | Num int | Str string

record dataframe =
  columns :: "string list"
  rows :: "cell list list"

text \<open>A series is a list of (index label, value) pairs, in the order of its index.\<close>

type_synonym series = "(cell \<times> int) list"

text \<open>
  The only exception the source raises itself is \<^verbatim>\<open>KeyError\<close>, which carries a
  message; pandas raises the same exception type from \<^verbatim>\<open>Series.loc\<close> on a missing
  label, and \<^verbatim>\<open>TypeError\<close> from \<^verbatim>\<open>sum()\<close> when it adds a number and a text.

  \<open>NotModelled\<close> is no exception. It marks the inputs at which the code goes on with a
  series of texts or of floating-point sums that are not whole numbers held exactly, which
  a series of integers cannot hold; nothing is stated about the code at these inputs.
\<close>

datatype error = KeyError string | TypeError | NotModelled

text \<open>
  The frames of the data model have one cell per column in every row and no two columns
  of one name: each record is a mapping from column names to values. pandas also admits
  frames with repeated column names, on which \<^verbatim>\<open>groupby\<close> behaves differently; they
  are not frames of this model, and the theorems that state that a call returns exclude
  them by \<open>wf_frame\<close>.
\<close>

definition wf_frame :: "dataframe \<Rightarrow> bool" where
  "wf_frame df \<longleftrightarrow>
     distinct (columns df) \<and> list_all (\<lambda>r. length r = length (columns df)) (rows df)"

text \<open>
  \<open>get_cell df c r\<close> is the cell of row \<open>r\<close> under the column named \<open>c\<close>. A row is
  matched with the column names position by position; a name that is absent, or a row
  that is too short, reads as a missing value.
\<close>

definition get_cell :: "dataframe \<Rightarrow> string \<Rightarrow> cell list \<Rightarrow> cell" where
  "get_cell df c r = (case map_of (zip (columns df) r) c of None \<Rightarrow> NaN | Some v \<Rightarrow> v)"

text \<open>\<^verbatim>\<open>df[c]\<close>: the cells of one column, in row order.\<close>

definition column_values :: "dataframe \<Rightarrow> string \<Rightarrow> cell list" where
  "column_values df c = map (get_cell df c) (rows df)"

subsection \<open>\<^verbatim>\<open>groupby\<close> and its aggregations\<close>

text \<open>
  \<^verbatim>\<open>df.groupby(k)\<close> runs with the defaults \<^verbatim>\<open>sort=True\<close> and \<^verbatim>\<open>dropna=True\<close>: the
  groups are the distinct non-missing values of the key column, enumerated in ascending
  key order, and a row whose key is missing belongs to no group. Keys are compared as
  pandas sorts an object column: numbers before texts, numbers by value, texts
  lexicographically by character code.
\<close>

fun cell_rank :: "cell \<Rightarrow> bool \<times> int \<times> string" where
  "cell_rank NaN = (True, 0, [])"
| "cell_rank (Num i) = (False, i, [])"
| "cell_rank (Str s) = (True, 0, s)"

definition group_keys :: "dataframe \<Rightarrow> string \<Rightarrow> cell list" where
  "group_keys df k =
     sort_key cell_rank (remdups (filter (\<lambda>c. c \<noteq> NaN) (column_values df k)))"

definition group_rows :: "dataframe \<Rightarrow> string \<Rightarrow> cell \<Rightarrow> cell list list" where
  "group_rows df k g = filter (\<lambda>r. get_cell df k r = g) (rows df)"

text \<open>
  \<^verbatim>\<open>nunique()\<close> runs with the default \<^verbatim>\<open>dropna=True\<close>: it counts the distinct
  non-missing values.
\<close>

definition nunique :: "cell list \<Rightarrow> int" where
  "nunique xs = int (length (remdups (filter (\<lambda>c. c \<noteq> NaN) xs)))"

text \<open>The two aggregations of the history ranker: one series entry per group, in group order.\<close>

definition groupby_nunique :: "dataframe \<Rightarrow> string \<Rightarrow> string \<Rightarrow> series" where
  "groupby_nunique df k c =
     map (\<lambda>g. (g, nunique (map (get_cell df c) (group_rows df k g)))) (group_keys df k)"

definition groupby_size :: "dataframe \<Rightarrow> string \<Rightarrow> series" where
  "groupby_size df k = map (\<lambda>g. (g, int (length (group_rows df k g)))) (group_keys df k)"

subsection \<open>\<^verbatim>\<open>sum()\<close>\<close>

text \<open>
  What \<^verbatim>\<open>sum()\<close> does depends on the type pandas gives the column, which it infers from
  all the cells of the column:
  \<^item> whole numbers of 64 bits and no missing value: an \<^verbatim>\<open>int64\<close> column. The sum of a
    group is computed in 64 bits and wraps around silently;
  \<^item> whole numbers and at least one missing value: a \<^verbatim>\<open>float64\<close> column. Missing values
    are skipped and the sum of no value is 0. While the absolute values of the column add
    up to at most \<open>2^53\<close>, every number and every partial sum is a whole number that
    \<^verbatim>\<open>float64\<close> holds exactly; the sum is then written here as that whole number. Beyond
    that bound the sums are rounded, and the outcome is \<open>NotModelled\<close>;
  \<^item> a column with a text: an \<^verbatim>\<open>object\<close> column. A group that holds a number and a text
    makes \<^verbatim>\<open>sum()\<close> raise \<^verbatim>\<open>TypeError\<close>. Otherwise the sums are texts, and the outcome
    is \<open>NotModelled\<close>.
\<close>

fun is_text :: "cell \<Rightarrow> bool" where
  "is_text (Str s) = True"
| "is_text _ = False"

fun is_num :: "cell \<Rightarrow> bool" where
  "is_num (Num i) = True"
| "is_num _ = False"

text \<open>The numbers of a list of cells, in order; used on columns without text only.\<close>

fun skipna :: "cell list \<Rightarrow> int list" where
  "skipna [] = []"
| "skipna (Num i # xs) = i # skipna xs"
| "skipna (x # xs) = skipna xs"

definition int64 :: "int \<Rightarrow> bool" where
  "int64 i \<longleftrightarrow> - (2 ^ 63) \<le> i \<and> i < 2 ^ 63"

definition wrap64 :: "int \<Rightarrow> int" where
  "wrap64 i = (i + 2 ^ 63) mod 2 ^ 64 - 2 ^ 63"

datatype dtype = Int64 | Float64

definition numeric_dtype :: "cell list \<Rightarrow> dtype option" where
  "numeric_dtype col =
     (if list_ex is_text col then None
      else if NaN \<in> set col
      then (if sum_list (map abs (skipna col)) \<le> 2 ^ 53 then Some Float64 else None)
      else if list_all int64 (skipna col) then Some Int64 else None)"

fun sum_as :: "dtype \<Rightarrow> cell list \<Rightarrow> int" where
  "sum_as Int64 xs = wrap64 (sum_list (skipna xs))"
| "sum_as Float64 xs = sum_list (skipna xs)"

definition mixed :: "cell list \<Rightarrow> bool" where
  "mixed xs \<longleftrightarrow> list_ex is_text xs \<and> list_ex is_num xs"

text \<open>The cells of column \<open>c\<close> in the rows of the group of key \<open>g\<close>.\<close>

definition group_cells :: "dataframe \<Rightarrow> string \<Rightarrow> string \<Rightarrow> cell \<Rightarrow> cell list" where
  "group_cells df k c g = map (get_cell df c) (group_rows df k g)"

definition groupby_sum :: "dataframe \<Rightarrow> string \<Rightarrow> string \<Rightarrow> error + series" where
  "groupby_sum df k c =
     (case numeric_dtype (column_values df c) of
        Some t \<Rightarrow> Inr (map (\<lambda>g. (g, sum_as t (group_cells df k c g))) (group_keys df k))
      | None \<Rightarrow>
          if list_ex (\<lambda>g. mixed (group_cells df k c g)) (group_keys df k)
          then Inl TypeError else Inl NotModelled)"

subsection \<open>Sorting, \<^verbatim>\<open>head\<close>, \<^verbatim>\<open>isin\<close>, \<^verbatim>\<open>loc\<close>\<close>

text \<open>
  \<^verbatim>\<open>sort_values(ascending=False)\<close>: pandas reverses the values, sorts them in ascending
  order and reverses the result. The default sort kind promises no order among equal
  values. The sort is taken here to be one that keeps equal values in their order; every
  general theorem below holds for each order among equal values, and only one example of
  three groups with one row each is evaluated where values are equal.
\<close>

definition sort_values_desc :: "series \<Rightarrow> series" where
  "sort_values_desc s = rev (sort_key snd (rev s))"

text \<open>
  \<^verbatim>\<open>head(n)\<close>: the first \<open>n\<close> entries when \<open>n\<close> is not negative, all entries but the last
  \<open>|n|\<close> when it is.
\<close>

definition head :: "int \<Rightarrow> 'a list \<Rightarrow> 'a list" where
  "head n xs = (if 0 \<le> n then take (nat n) xs else take (length xs - nat (- n)) xs)"

definition index_tolist :: "series \<Rightarrow> cell list" where
  "index_tolist s = map fst s"

text \<open>\<^verbatim>\<open>df[k].isin(keys)\<close>, as a test on one row.\<close>

definition isin :: "dataframe \<Rightarrow> string \<Rightarrow> cell list \<Rightarrow> cell list \<Rightarrow> bool" where
  "isin df k keys r = (get_cell df k r \<in> set keys)"

text \<open>\<^verbatim>\<open>df[mask]\<close>: the rows that pass the test, in their order, under the same columns.\<close>

definition select_rows :: "dataframe \<Rightarrow> (cell list \<Rightarrow> bool) \<Rightarrow> dataframe" where
  "select_rows df p = df\<lparr>rows := filter p (rows df)\<rparr>"

text \<open>
  \<^verbatim>\<open>s.loc[labels]\<close>: the entries of \<open>s\<close> at the labels, in the order of the labels;
  a label that is not in the index raises \<^verbatim>\<open>KeyError\<close>.
\<close>

fun loc :: "series \<Rightarrow> cell list \<Rightarrow> error + series" where
  "loc s [] = Inr []"
| "loc s (k # ks) =
     (case map_of s k of
        None \<Rightarrow> Inl (KeyError ''not in index'')
      | Some v \<Rightarrow> (case loc s ks of Inl e \<Rightarrow> Inl e | Inr t \<Rightarrow> Inr ((k, v) # t)))"

subsection \<open>Frames as objects in a store\<close>

text \<open>
  A frame is an object: the caller and the ranker hold references to it. The store is the
  list of the frames that exist, and a reference is a position in it. \<^verbatim>\<open>df.copy()\<close>
  makes a new frame with the columns and rows of \<open>df\<close>, and \<^verbatim>\<open>df[mask]\<close> makes a new
  frame with the rows that pass the test; both return the reference of the new frame. No
  statement of either ranker assigns to a frame.
\<close>

type_synonym store = "dataframe list"

definition copy :: "store \<Rightarrow> nat \<Rightarrow> store \<times> nat" where
  "copy st df = (st @ [st ! df], length st)"

definition getitem :: "store \<Rightarrow> nat \<Rightarrow> (cell list \<Rightarrow> bool) \<Rightarrow> store \<times> nat" where
  "getitem st df keep = (st @ [select_rows (st ! df) keep], length st)"

text \<open>An assignment of a whole frame to the object at reference \<open>b\<close>.\<close>

definition mutate :: "store \<Rightarrow> nat \<Rightarrow> dataframe \<Rightarrow> store" where
  "mutate st b df = st[b := df]"

subsection \<open>The two rankers\<close>

text \<open>The message of the source's \<^verbatim>\<open>KeyError\<close>, an f-string around the column name.\<close>

definition not_found_msg :: "string \<Rightarrow> string" where
  "not_found_msg ticker_col =
     ''ticker_col '' @ [CHR 0x27] @ ticker_col @ [CHR 0x27] @ '' not found in DataFrame columns''"

text \<open>Lines 17 to 20: the variable \<^verbatim>\<open>counts\<close> of \<^verbatim>\<open>get_top_n_by_history\<close>.\<close>

definition history_counts :: "dataframe \<Rightarrow> string \<Rightarrow> string \<Rightarrow> series" where
  "history_counts df ticker_col date_col =
     (if date_col \<in> set (columns df) then groupby_nunique df ticker_col date_col
      else groupby_size df ticker_col)"

text \<open>
  \<^verbatim>\<open>get_top_n_by_history\<close>, statement by statement. The argument \<open>df\<close> is the
  reference of the input, and the first component of the result is the reference of the
  subset, in the store the call leaves.
\<close>

definition get_top_n_by_history_st ::
  "store \<Rightarrow> nat \<Rightarrow> string \<Rightarrow> string \<Rightarrow> int \<Rightarrow> store \<times> (error + (nat \<times> cell list))" where
  "get_top_n_by_history_st st df ticker_col date_col n =
     (if ticker_col \<notin> set (columns (st ! df))
      then (st, Inl (KeyError (not_found_msg ticker_col)))
      else
        let counts = history_counts (st ! df) ticker_col date_col in
        if n = - 1 then
          (let top_tickers = index_tolist (sort_values_desc counts);
               (st1, subset_df) = copy st df
           in (st1, Inr (subset_df, top_tickers)))
        else
          (let top_tickers = index_tolist (head n (sort_values_desc counts));
               (st1, masked) = getitem st df (isin (st ! df) ticker_col top_tickers);
               (st2, subset_df) = copy st1 masked
           in (st2, Inr (subset_df, top_tickers))))"

text \<open>
  Lines 41 to 46: the variable \<^verbatim>\<open>totals\<close> of \<^verbatim>\<open>get_top_n_by_news\<close>. The parameter
  \<^verbatim>\<open>news_count_col\<close> is a string or \<^verbatim>\<open>None\<close>; the test \<^verbatim>\<open>news_count_col and ...\<close>
  is Python's truth test, which \<^verbatim>\<open>None\<close> and the empty string both fail.
\<close>

fun truthy :: "string option \<Rightarrow> bool" where
  "truthy None = False"
| "truthy (Some s) = (s \<noteq> [])"

text \<open>The column name a truthy \<^verbatim>\<open>news_count_col\<close> holds.\<close>

fun col_name :: "string option \<Rightarrow> string" where
  "col_name None = []"
| "col_name (Some s) = s"

definition news_totals :: "dataframe \<Rightarrow> string \<Rightarrow> string option \<Rightarrow> error + series" where
  "news_totals news_df ticker_col news_count_col =
     (if truthy news_count_col \<and> col_name news_count_col \<in> set (columns news_df)
      then groupby_sum news_df ticker_col (col_name news_count_col)
      else if ''news_count'' \<in> set (columns news_df)
      then groupby_sum news_df ticker_col ''news_count''
      else Inr (groupby_size news_df ticker_col))"

text \<open>\<^verbatim>\<open>get_top_n_by_news\<close>, statement by statement, on references as above.\<close>

definition get_top_n_by_news_st ::
  "store \<Rightarrow> nat \<Rightarrow> string \<Rightarrow> string option \<Rightarrow> int
     \<Rightarrow> store \<times> (error + (nat \<times> cell list \<times> series))" where
  "get_top_n_by_news_st st news_df ticker_col news_count_col n =
     (if ticker_col \<notin> set (columns (st ! news_df))
      then (st, Inl (KeyError (not_found_msg ticker_col)))
      else
        case news_totals (st ! news_df) ticker_col news_count_col of
          Inl e \<Rightarrow> (st, Inl e)
        | Inr totals \<Rightarrow>
            if n = - 1 then
              (let top_tickers = index_tolist (sort_values_desc totals);
                   (st1, subset_df) = copy st news_df
               in (case loc totals top_tickers of
                     Inl e \<Rightarrow> (st1, Inl e)
                   | Inr t \<Rightarrow> (st1, Inr (subset_df, top_tickers, t))))
            else
              (let top_tickers = index_tolist (head n (sort_values_desc totals));
                   (st1, masked) =
                     getitem st news_df (isin (st ! news_df) ticker_col top_tickers);
                   (st2, subset_df) = copy st1 masked
               in (case loc totals top_tickers of
                     Inl e \<Rightarrow> (st2, Inl e)
                   | Inr t \<Rightarrow> (st2, Inr (subset_df, top_tickers, t)))))"

text \<open>
  The rankers as functions of the input frame: the call is made in a store that holds
  the input alone, and the subset is the frame found at the returned reference.
\<close>

definition get_top_n_by_history ::
  "dataframe \<Rightarrow> string \<Rightarrow> string \<Rightarrow> int \<Rightarrow> error + (dataframe \<times> cell list)" where
  "get_top_n_by_history df ticker_col date_col n =
     (case get_top_n_by_history_st [df] 0 ticker_col date_col n of
        (st, Inl e) \<Rightarrow> Inl e
      | (st, Inr (subset_df, top_tickers)) \<Rightarrow> Inr (st ! subset_df, top_tickers))"

definition get_top_n_by_news ::
  "dataframe \<Rightarrow> string \<Rightarrow> string option \<Rightarrow> int \<Rightarrow> error + (dataframe \<times> cell list \<times> series)" where
  "get_top_n_by_news news_df ticker_col news_count_col n =
     (case get_top_n_by_news_st [news_df] 0 ticker_col news_count_col n of
        (st, Inl e) \<Rightarrow> Inl e
      | (st, Inr (subset_df, top_tickers, totals)) \<Rightarrow> Inr (st ! subset_df, top_tickers, totals))"

subsection \<open>The measure of one group\<close>

text \<open>
  The number the history ranker attaches to the group of key \<open>g\<close>: the entry of
  \<^verbatim>\<open>counts\<close> at \<open>g\<close>, read off the branch of the source that computes it.
\<close>

definition history_measure :: "dataframe \<Rightarrow> string \<Rightarrow> string \<Rightarrow> cell \<Rightarrow> int" where
  "history_measure df ticker_col date_col g =
     (if date_col \<in> set (columns df)
      then nunique (map (get_cell df date_col) (group_rows df ticker_col g))
      else int (length (group_rows df ticker_col g)))"

text \<open>
  The column that lines 41 to 46 sum, \<open>None\<close> when they count rows. The column is
  numeric when \<open>numeric_dtype\<close> gives it a type: the condition under which the statements
  below say that the news ranker returns.
\<close>

definition summed_column :: "dataframe \<Rightarrow> string option \<Rightarrow> string option" where
  "summed_column news_df news_count_col =
     (if truthy news_count_col \<and> col_name news_count_col \<in> set (columns news_df)
      then Some (col_name news_count_col)
      else if ''news_count'' \<in> set (columns news_df) then Some ''news_count''
      else None)"

definition count_numeric :: "dataframe \<Rightarrow> string option \<Rightarrow> bool" where
  "count_numeric news_df news_count_col =
     (case summed_column news_df news_count_col of
        None \<Rightarrow> True
      | Some s \<Rightarrow> numeric_dtype (column_values news_df s) \<noteq> None)"

text \<open>
  A series that holds \<open>f g\<close> at every label \<open>g\<close> of a list, and the labels of such a
  series after the descending sort.
\<close>

definition tabulate :: "(cell \<Rightarrow> int) \<Rightarrow> cell list \<Rightarrow> series" where
  "tabulate f gs = map (\<lambda>g. (g, f g)) gs"

definition ranked :: "(cell \<Rightarrow> int) \<Rightarrow> cell list \<Rightarrow> cell list" where
  "ranked f gs = index_tolist (sort_values_desc (tabulate f gs))"

subsection \<open>Example frames\<close>

text \<open>Prices of three tickers: A on three dates, B on five, C on one.\<close>

definition prices :: dataframe where
  "prices = \<lparr>columns = [''ticker'', ''date''],
     rows = [[Str ''A'', Str ''d1''], [Str ''B'', Str ''d1''], [Str ''A'', Str ''d2''],
             [Str ''B'', Str ''d2''], [Str ''C'', Str ''d1''], [Str ''B'', Str ''d3''],
             [Str ''A'', Str ''d3''], [Str ''B'', Str ''d4''], [Str ''B'', Str ''d5'']]\<rparr>"

text \<open>News with a \<^verbatim>\<open>news_count\<close> column: P sums to 10, Q to 20.\<close>

definition news :: dataframe where
  "news = \<lparr>columns = [''ticker'', ''news_count''],
     rows = [[Str ''P'', Num 4], [Str ''Q'', Num 20], [Str ''P'', Num 6]]\<rparr>"

text \<open>News with a count column of another name, and news with no count column.\<close>

definition news_hits :: dataframe where
  "news_hits = \<lparr>columns = [''ticker'', ''news_count'', ''hits''],
     rows = [[Str ''P'', Num 4, Num 1], [Str ''Q'', Num 20, Num 2], [Str ''P'', Num 6, Num 7]]\<rparr>"

definition news_plain :: dataframe where
  "news_plain = \<lparr>columns = [''ticker'', ''title''],
     rows = [[Str ''P'', Str ''t1''], [Str ''Q'', Str ''t2''], [Str ''P'', Str ''t3'']]\<rparr>"

text \<open>A frame in which one row has no key.\<close>

definition null_key :: dataframe where
  "null_key = \<lparr>columns = [''ticker''], rows = [[Str ''A''], [NaN]]\<rparr>"

text \<open>Three tickers with one row each, in the order B, A, C.\<close>

definition tie :: dataframe where
  "tie = \<lparr>columns = [''ticker''], rows = [[Str ''B''], [Str ''A''], [Str ''C'']]\<rparr>"

text \<open>A count column whose name is the empty string.\<close>

definition blank_name :: dataframe where
  "blank_name = \<lparr>columns = [''ticker'', []], rows = [[Str ''A'', Num 5]]\<rparr>"

text \<open>One ticker with a date and two missing dates.\<close>

definition null_date :: dataframe where
  "null_date = \<lparr>columns = [''ticker'', ''date''],
     rows = [[Str ''A'', Str ''d1''], [Str ''A'', NaN], [Str ''A'', NaN]]\<rparr>"

text \<open>A count column in which the group of P holds a number and a text.\<close>

definition mixed_news :: dataframe where
  "mixed_news = \<lparr>columns = [''ticker'', ''news_count''],
     rows = [[Str ''P'', Num 1], [Str ''Q'', Num 2], [Str ''P'', Str ''x'']]\<rparr>"

text \<open>A count column of 64-bit numbers in which the sum of P does not fit in 64 bits.\<close>

definition big_news :: dataframe where
  "big_news = \<lparr>columns = [''ticker'', ''news_count''],
     rows = [[Str ''P'', Num (2 ^ 62)], [Str ''Q'', Num 1], [Str ''P'', Num (2 ^ 62)]]\<rparr>"


subsection \<open>Facts about the pandas operations\<close>

lemma set_group_keys: "set (group_keys df k) = set (column_values df k) - {NaN}"
  by (auto simp: group_keys_def)

lemma distinct_group_keys: "distinct (group_keys df k)"
  by (simp add: group_keys_def)

lemma length_group_keys: "length (group_keys df k) = card (set (column_values df k) - {NaN})"
  using distinct_card [OF distinct_group_keys, of df k] by (simp add: set_group_keys)

lemma history_counts_tabulate:
  "history_counts df k d = tabulate (history_measure df k d) (group_keys df k)"
  by (simp add: history_counts_def tabulate_def history_measure_def groupby_nunique_def
      groupby_size_def)

lemma set_sort_values_desc: "set (sort_values_desc s) = set s"
  by (simp add: sort_values_desc_def)

lemma sorted_sort_values_desc: "sorted_wrt (\<lambda>x y. y \<le> x) (map snd (sort_values_desc s))"
proof -
  have "sorted (map snd (sort_key snd (rev s)))" by (rule sorted_sort_key)
  then have "sorted_wrt (\<lambda>x y. y \<le> x) (rev (map snd (sort_key snd (rev s))))"
    by (simp add: sorted_wrt_rev)
  then show ?thesis by (simp add: sort_values_desc_def rev_map)
qed

lemma snd_of_tabulated:
  "set t \<subseteq> set (tabulate f gs) \<Longrightarrow> map snd t = map f (map fst t)"
  by (induction t) (auto simp: tabulate_def)

lemma set_ranked: "set (ranked f gs) = set gs"
  by (force simp: ranked_def index_tolist_def set_sort_values_desc tabulate_def)

lemma distinct_ranked: "distinct gs \<Longrightarrow> distinct (ranked f gs)"
proof -
  assume d: "distinct gs"
  have "map fst (tabulate f gs) = gs" by (simp add: tabulate_def comp_def)
  with d have "distinct (map fst (tabulate f gs))" by simp
  then show ?thesis
    by (simp add: ranked_def index_tolist_def sort_values_desc_def distinct_map)
qed

lemma length_ranked: "length (ranked f gs) = length gs"
  by (simp add: ranked_def index_tolist_def sort_values_desc_def tabulate_def)

lemma sorted_ranked: "sorted_wrt (\<lambda>x y. y \<le> x) (map f (ranked f gs))"
proof -
  have "map snd (sort_values_desc (tabulate f gs))
        = map f (map fst (sort_values_desc (tabulate f gs)))"
    by (rule snd_of_tabulated [where gs = gs]) (simp add: set_sort_values_desc)
  with sorted_sort_values_desc [of "tabulate f gs"] show ?thesis
    by (simp add: ranked_def index_tolist_def)
qed

lemma index_head: "index_tolist (head n s) = head n (index_tolist s)"
  by (simp add: index_tolist_def head_def take_map)

lemma set_head: "set (head n xs) \<subseteq> set xs"
  by (auto simp: head_def dest: in_set_takeD)

lemma distinct_head: "distinct xs \<Longrightarrow> distinct (head n xs)"
  by (simp add: head_def)

lemma sorted_head: "sorted_wrt R (map f xs) \<Longrightarrow> sorted_wrt R (map f (head n xs))"
  by (simp add: head_def take_map [symmetric] sorted_wrt_take)

lemma loc_tabulate: "set ks \<subseteq> set gs \<Longrightarrow> loc (tabulate f gs) ks = Inr (tabulate f ks)"
proof (induction ks)
  case Nil
  then show ?case by (simp add: tabulate_def)
next
  case (Cons k ks)
  then have "k \<in> set gs" by simp
  then have "map_of (tabulate f gs) k = Some (f k)"
    by (induction gs) (auto simp: tabulate_def)
  with Cons show ?case by (simp add: tabulate_def)
qed

lemma map_of_tabulate: "g \<in> set gs \<Longrightarrow> map_of (tabulate f gs) g = Some (f g)"
  by (induction gs) (auto simp: tabulate_def)

lemma tabulate_subset: "set ks \<subseteq> set gs \<Longrightarrow> set (tabulate f ks) \<subseteq> set (tabulate f gs)"
  by (auto simp: tabulate_def)

lemma index_tabulate: "index_tolist (tabulate f gs) = gs"
  by (simp add: index_tolist_def tabulate_def comp_def)

subsection \<open>Facts about \<^verbatim>\<open>sum()\<close>\<close>

lemma groupby_sum_numeric:
  "numeric_dtype (column_values df c) = Some t \<Longrightarrow>
   groupby_sum df k c = Inr (tabulate (\<lambda>g. sum_as t (group_cells df k c g)) (group_keys df k))"
  by (simp add: groupby_sum_def tabulate_def)

lemma groupby_sum_Inr:
  assumes "groupby_sum df k c = Inr s"
  shows "\<exists>t. numeric_dtype (column_values df c) = Some t \<and>
             s = tabulate (\<lambda>g. sum_as t (group_cells df k c g)) (group_keys df k)"
  using assms by (auto simp: groupby_sum_def tabulate_def split: option.splits if_splits)

lemma groupby_sum_TypeError:
  "groupby_sum df k c = Inl TypeError \<longleftrightarrow>
     numeric_dtype (column_values df c) = None \<and>
     list_ex (\<lambda>g. mixed (group_cells df k c g)) (group_keys df k)"
  by (auto simp: groupby_sum_def split: option.splits)

lemma groupby_sum_no_KeyError: "groupby_sum df k c \<noteq> Inl (KeyError m)"
  by (auto simp: groupby_sum_def split: option.splits)

lemma news_totals_no_KeyError: "news_totals df k c \<noteq> Inl (KeyError m)"
  by (simp add: news_totals_def groupby_sum_no_KeyError)

lemma news_totals_shape:
  assumes "news_totals df k c = Inr s"
  shows "\<exists>f. s = tabulate f (group_keys df k)"
proof (cases "truthy c \<and> col_name c \<in> set (columns df)")
  case True
  with assms have "groupby_sum df k (col_name c) = Inr s" by (simp add: news_totals_def)
  from groupby_sum_Inr [OF this] show ?thesis by blast
next
  case False
  show ?thesis
  proof (cases "''news_count'' \<in> set (columns df)")
    case True
    with False assms have "groupby_sum df k ''news_count'' = Inr s"
      by (auto simp: news_totals_def)
    from groupby_sum_Inr [OF this] show ?thesis by blast
  next
    case nc: False
    with False assms have "s = tabulate (\<lambda>g. int (length (group_rows df k g))) (group_keys df k)"
      by (auto simp: news_totals_def groupby_size_def tabulate_def)
    then show ?thesis by blast
  qed
qed

lemma news_totals_summed:
  "news_totals df k c =
     (case summed_column df c of
        Some s \<Rightarrow> groupby_sum df k s
      | None \<Rightarrow> Inr (groupby_size df k))"
  by (simp add: news_totals_def summed_column_def)

lemma news_totals_numeric:
  assumes "count_numeric df c"
  shows "\<exists>s. news_totals df k c = Inr s"
  using assms
  by (auto simp: count_numeric_def news_totals_summed groupby_sum_numeric split: option.splits)

text \<open>A group that holds a number and a text makes the sum fail.\<close>

lemma groupby_sum_mixed:
  assumes "list_ex (\<lambda>g. mixed (group_cells df k s g)) (group_keys df k)"
  shows "groupby_sum df k s = Inl TypeError"
proof -
  from assms obtain g where "mixed (group_cells df k s g)" by (auto simp: list_ex_iff)
  then have "list_ex is_text (group_cells df k s g)" by (simp add: mixed_def)
  then obtain x where "x \<in> set (group_cells df k s g)" and t: "is_text x"
    by (auto simp: list_ex_iff)
  then have "x \<in> set (column_values df s)"
    by (auto simp: group_cells_def group_rows_def column_values_def)
  with t have "list_ex is_text (column_values df s)" by (auto simp: list_ex_iff)
  then have "numeric_dtype (column_values df s) = None" by (simp add: numeric_dtype_def)
  with assms show ?thesis by (simp add: groupby_sum_TypeError)
qed

lemma news_totals_mixed:
  assumes "summed_column df c = Some s"
    and "list_ex (\<lambda>g. mixed (group_cells df k s g)) (group_keys df k)"
  shows "news_totals df k c = Inl TypeError"
  using assms by (simp add: news_totals_summed groupby_sum_mixed)

subsection \<open>What the rankers return\<close>

lemma history_missing:
  "k \<notin> set (columns df) \<Longrightarrow> get_top_n_by_history df k d n = Inl (KeyError (not_found_msg k))"
  by (simp add: get_top_n_by_history_def get_top_n_by_history_st_def)

lemma news_missing:
  "k \<notin> set (columns df) \<Longrightarrow> get_top_n_by_news df k c n = Inl (KeyError (not_found_msg k))"
  by (simp add: get_top_n_by_news_def get_top_n_by_news_st_def)

lemma history_all:
  "k \<in> set (columns df) \<Longrightarrow>
   get_top_n_by_history df k d (- 1) = Inr (df, ranked (history_measure df k d) (group_keys df k))"
  by (simp add: get_top_n_by_history_def get_top_n_by_history_st_def history_counts_tabulate
      ranked_def copy_def Let_def)

lemma history_top:
  "k \<in> set (columns df) \<Longrightarrow> n \<noteq> - 1 \<Longrightarrow>
   get_top_n_by_history df k d n =
     Inr (select_rows df (isin df k (head n (ranked (history_measure df k d) (group_keys df k)))),
          head n (ranked (history_measure df k d) (group_keys df k)))"
  by (simp add: get_top_n_by_history_def get_top_n_by_history_st_def history_counts_tabulate
      ranked_def copy_def getitem_def index_head Let_def nth_append)

lemma news_error:
  "k \<in> set (columns df) \<Longrightarrow> news_totals df k c = Inl e \<Longrightarrow> get_top_n_by_news df k c n = Inl e"
  by (simp add: get_top_n_by_news_def get_top_n_by_news_st_def)

lemma news_all:
  assumes "k \<in> set (columns df)" and "news_totals df k c = Inr (tabulate f gs)"
  shows "get_top_n_by_news df k c (- 1) = Inr (df, ranked f gs, tabulate f (ranked f gs))"
proof -
  have "loc (tabulate f gs) (ranked f gs) = Inr (tabulate f (ranked f gs))"
    by (rule loc_tabulate) (simp add: set_ranked)
  with assms show ?thesis
    by (simp add: get_top_n_by_news_def get_top_n_by_news_st_def ranked_def [symmetric] copy_def
        Let_def)
qed

lemma news_top:
  assumes "k \<in> set (columns df)" and "news_totals df k c = Inr (tabulate f gs)" and "n \<noteq> - 1"
  shows "get_top_n_by_news df k c n =
     Inr (select_rows df (isin df k (head n (ranked f gs))), head n (ranked f gs),
          tabulate f (head n (ranked f gs)))"
proof -
  have "set (head n (ranked f gs)) \<subseteq> set gs"
    using set_head [of n "ranked f gs"] by (simp add: set_ranked)
  then have "loc (tabulate f gs) (head n (ranked f gs)) = Inr (tabulate f (head n (ranked f gs)))"
    by (rule loc_tabulate)
  with assms show ?thesis
    by (simp add: get_top_n_by_news_def get_top_n_by_news_st_def index_head
        ranked_def [symmetric] copy_def getitem_def Let_def nth_append)
qed

text \<open>Every result of the news ranker comes from a series over the groups.\<close>

lemma news_Inr:
  assumes "get_top_n_by_news df k c n = Inr r"
  shows "k \<in> set (columns df) \<and> (\<exists>f. news_totals df k c = Inr (tabulate f (group_keys df k)))"
proof -
  have p: "k \<in> set (columns df)"
    using assms by (cases "k \<in> set (columns df)") (simp_all add: news_missing)
  have "\<exists>s. news_totals df k c = Inr s"
  proof (cases "news_totals df k c")
    case (Inl e)
    from news_error [OF p Inl, of n] assms show ?thesis by simp
  next
    case (Inr s)
    then show ?thesis by blast
  qed
  with news_totals_shape p show ?thesis by blast
qed

lemma history_Inr:
  "get_top_n_by_history df k d n = Inr r \<Longrightarrow> k \<in> set (columns df)"
  by (cases "k \<in> set (columns df)") (simp_all add: history_missing)

section \<open>The claims\<close>

text \<open>
  C1, amended. For both rankers, when the key column \<open>ticker_col\<close> is not among the
  columns of the dataset, the call fails with the \<^verbatim>\<open>KeyError\<close> whose message is the
  text of \<open>not_found_msg\<close>, which contains the name of the missing column. The failure does
  not depend on the rows, on the other column argument or on \<open>n\<close>: the test is the first
  statement, ahead of every aggregation. When the key column is present,
  \<open>get_top_n_by_history\<close> returns. \<open>get_top_n_by_news\<close> returns when the column it sums
  is numeric or when it counts rows, and it fails with the \<^verbatim>\<open>TypeError\<close> of the sum
  when a group of the summed column holds a number and a text.
\<close>

theorem missing_key_column:
  "(ticker_col \<notin> set (columns df) \<longrightarrow>
      get_top_n_by_history df ticker_col date_col n = Inl (KeyError (not_found_msg ticker_col)) \<and>
      get_top_n_by_news df ticker_col news_count_col n = Inl (KeyError (not_found_msg ticker_col)) \<and>
      (\<exists>pre post. not_found_msg ticker_col = pre @ ticker_col @ post)) \<and>
   (wf_frame df \<and> ticker_col \<in> set (columns df) \<longrightarrow>
      (\<exists>r. get_top_n_by_history df ticker_col date_col n = Inr r) \<and>
      (count_numeric df news_count_col \<longrightarrow>
         (\<exists>r. get_top_n_by_news df ticker_col news_count_col n = Inr r)) \<and>
      (\<forall>s. summed_column df news_count_col = Some s \<and>
           list_ex (\<lambda>g. mixed (group_cells df ticker_col s g)) (group_keys df ticker_col) \<longrightarrow>
           get_top_n_by_news df ticker_col news_count_col n = Inl TypeError))"
proof (intro conjI impI allI)
  assume "ticker_col \<notin> set (columns df)"
  then show "get_top_n_by_history df ticker_col date_col n = Inl (KeyError (not_found_msg ticker_col))"
    and "get_top_n_by_news df ticker_col news_count_col n = Inl (KeyError (not_found_msg ticker_col))"
    by (rule history_missing, rule news_missing)
next
  have "not_found_msg ticker_col
        = (''ticker_col '' @ [CHR 0x27]) @ ticker_col @ ([CHR 0x27] @ '' not found in DataFrame columns'')"
    by (simp add: not_found_msg_def)
  then show "\<exists>pre post. not_found_msg ticker_col = pre @ ticker_col @ post" by blast
next
  assume "wf_frame df \<and> ticker_col \<in> set (columns df)"
  then have p: "ticker_col \<in> set (columns df)" by simp
  show "\<exists>r. get_top_n_by_history df ticker_col date_col n = Inr r"
    using history_all [OF p] history_top [OF p] by (cases "n = - 1") auto
  have ret: "\<exists>r. get_top_n_by_news df ticker_col news_count_col n = Inr r"
    if "news_totals df ticker_col news_count_col = Inr s" for s
  proof -
    from news_totals_shape [OF that] that obtain f where
      "news_totals df ticker_col news_count_col = Inr (tabulate f (group_keys df ticker_col))"
      by auto
    from news_all [OF p this] news_top [OF p this, of n] show ?thesis
      by (cases "n = - 1") auto
  qed
  show "get_top_n_by_news df ticker_col news_count_col n = Inl TypeError"
    if "summed_column df news_count_col = Some s \<and>
        list_ex (\<lambda>g. mixed (group_cells df ticker_col s g)) (group_keys df ticker_col)" for s
  proof -
    from that news_totals_mixed [of df news_count_col s ticker_col]
    have "news_totals df ticker_col news_count_col = Inl TypeError" by blast
    from news_error [OF p this] show ?thesis .
  qed
  show "\<exists>r. get_top_n_by_news df ticker_col news_count_col n = Inr r"
    if "count_numeric df news_count_col"
    using news_totals_numeric [OF that, of ticker_col] ret by blast
qed

theorem missing_key_column_witness:
  "''symbol'' \<notin> set (columns prices) \<and>
   get_top_n_by_history prices ''symbol'' ''date'' 2 = Inl (KeyError (not_found_msg ''symbol'')) \<and>
   get_top_n_by_news prices ''symbol'' None 2 = Inl (KeyError (not_found_msg ''symbol'')) \<and>
   wf_frame news \<and> ''ticker'' \<in> set (columns news) \<and> count_numeric news None \<and>
   (\<exists>r. get_top_n_by_history news ''ticker'' ''date'' 2 = Inr r) \<and>
   (\<exists>r. get_top_n_by_news news ''ticker'' None 2 = Inr r) \<and>
   wf_frame mixed_news \<and> ''ticker'' \<in> set (columns mixed_news) \<and>
   summed_column mixed_news None = Some ''news_count'' \<and>
   list_ex (\<lambda>g. mixed (group_cells mixed_news ''ticker'' ''news_count'' g))
     (group_keys mixed_news ''ticker'') \<and>
   get_top_n_by_news mixed_news ''ticker'' None (- 1) = Inl TypeError"
proof -
  have a: "''symbol'' \<notin> set (columns prices)" by (simp add: prices_def)
  have w': "wf_frame mixed_news" by code_simp
  have p': "''ticker'' \<in> set (columns mixed_news)" by (simp add: mixed_news_def)
  have s': "summed_column mixed_news None = Some ''news_count''" by code_simp
  have m': "list_ex (\<lambda>g. mixed (group_cells mixed_news ''ticker'' ''news_count'' g))
     (group_keys mixed_news ''ticker'')"
    by code_simp
  from missing_key_column [of "''ticker''" mixed_news "''date''" "- 1" None] w' p' s' m'
  have t': "get_top_n_by_news mixed_news ''ticker'' None (- 1) = Inl TypeError" by blast
  have w: "wf_frame news" by code_simp
  have p: "''ticker'' \<in> set (columns news)" by (simp add: news_def)
  have c: "count_numeric news None" by code_simp
  from missing_key_column [of "''symbol''" prices "''date''" 2 None] a
  have "get_top_n_by_history prices ''symbol'' ''date'' 2 = Inl (KeyError (not_found_msg ''symbol'')) \<and>
   get_top_n_by_news prices ''symbol'' None 2 = Inl (KeyError (not_found_msg ''symbol''))"
    by blast
  moreover from missing_key_column [of "''ticker''" news "''date''" 2 None] w p c
  have "(\<exists>r. get_top_n_by_history news ''ticker'' ''date'' 2 = Inr r) \<and>
   (\<exists>r. get_top_n_by_news news ''ticker'' None 2 = Inr r)"
    by blast
  ultimately show ?thesis using a w p c w' p' s' m' t' by blast
qed

theorem missing_key_column_counterexample:
  "wf_frame mixed_news \<and> ''ticker'' \<in> set (columns mixed_news) \<and>
   group_cells mixed_news ''ticker'' ''news_count'' (Str ''P'') = [Num 1, Str ''x''] \<and>
   get_top_n_by_news mixed_news ''ticker'' None 2 = Inl TypeError"
proof -
  have "wf_frame mixed_news" by code_simp
  moreover have "''ticker'' \<in> set (columns mixed_news)" by (simp add: mixed_news_def)
  moreover have "group_cells mixed_news ''ticker'' ''news_count'' (Str ''P'') = [Num 1, Str ''x'']"
    by code_simp
  moreover have "get_top_n_by_news mixed_news ''ticker'' None 2 = Inl TypeError" by code_simp
  ultimately show ?thesis by blast
qed

subsection \<open>The rows of the subset\<close>

lemma filter_isin_all:
  "NaN \<notin> set (column_values df k) \<Longrightarrow> set keys = set (column_values df k) - {NaN} \<Longrightarrow>
   filter (isin df k keys) (rows df) = rows df"
  by (simp add: isin_def column_values_def)

lemma history_subset_rows:
  assumes "get_top_n_by_history df k d n = Inr (sub, keys)"
  shows "columns sub = columns df"
    and "n \<noteq> - 1 \<Longrightarrow> rows sub = filter (isin df k keys) (rows df)"
    and "n = - 1 \<Longrightarrow> rows sub = rows df"
    and "NaN \<notin> set (column_values df k) \<Longrightarrow> rows sub = filter (isin df k keys) (rows df)"
proof -
  have p: "k \<in> set (columns df)" using assms by (rule history_Inr)
  show "columns sub = columns df"
    using assms history_all [OF p, of d] history_top [OF p, of n d]
    by (cases "n = - 1") (auto simp: select_rows_def)
  show top: "n \<noteq> - 1 \<Longrightarrow> rows sub = filter (isin df k keys) (rows df)"
    using assms history_top [OF p, of n d] by (auto simp: select_rows_def)
  show all: "n = - 1 \<Longrightarrow> rows sub = rows df"
    using assms history_all [OF p, of d] by auto
  show "rows sub = filter (isin df k keys) (rows df)" if nn: "NaN \<notin> set (column_values df k)"
  proof (cases "n = - 1")
    case True
    then have "set keys = set (column_values df k) - {NaN}"
      using assms history_all [OF p, of d] by (auto simp: set_ranked set_group_keys)
    with nn all [OF True] show ?thesis by (simp add: filter_isin_all)
  next
    case False
    then show ?thesis by (rule top)
  qed
qed

lemma news_subset_rows:
  assumes "get_top_n_by_news df k c n = Inr (sub, keys, totals)"
  shows "columns sub = columns df"
    and "n \<noteq> - 1 \<Longrightarrow> rows sub = filter (isin df k keys) (rows df)"
    and "n = - 1 \<Longrightarrow> rows sub = rows df"
    and "NaN \<notin> set (column_values df k) \<Longrightarrow> rows sub = filter (isin df k keys) (rows df)"
proof -
  from news_Inr [OF assms] obtain f where p: "k \<in> set (columns df)"
    and t: "news_totals df k c = Inr (tabulate f (group_keys df k))"
    by blast
  show "columns sub = columns df"
    using assms news_all [OF p t] news_top [OF p t, of n]
    by (cases "n = - 1") (auto simp: select_rows_def)
  show top: "n \<noteq> - 1 \<Longrightarrow> rows sub = filter (isin df k keys) (rows df)"
    using assms news_top [OF p t, of n] by (auto simp: select_rows_def)
  show all: "n = - 1 \<Longrightarrow> rows sub = rows df"
    using assms news_all [OF p t] by auto
  show "rows sub = filter (isin df k keys) (rows df)" if nn: "NaN \<notin> set (column_values df k)"
  proof (cases "n = - 1")
    case True
    then have "set keys = set (column_values df k) - {NaN}"
      using assms news_all [OF p t] by (auto simp: set_ranked set_group_keys)
    with nn all [OF True] show ?thesis by (simp add: filter_isin_all)
  next
    case False
    then show ?thesis by (rule top)
  qed
qed

text \<open>
  C2, amended. For both rankers, whenever a call returns, the subset has the columns of
  the input. When \<open>n\<close> is not \<open>-1\<close>, its rows are exactly the rows of the input whose
  key-column value is one of the returned keys, in the order of the input. When \<open>n\<close> is
  \<open>-1\<close>, its rows are all the rows of the input, in order; these are again the rows whose
  key is among the returned keys when no row has a missing key.
\<close>

theorem subset_rows:
  "(get_top_n_by_history df k d n = Inr (sub, keys) \<longrightarrow>
      columns sub = columns df \<and>
      (n \<noteq> - 1 \<longrightarrow> rows sub = filter (isin df k keys) (rows df)) \<and>
      (n = - 1 \<longrightarrow> rows sub = rows df) \<and>
      (NaN \<notin> set (column_values df k) \<longrightarrow> rows sub = filter (isin df k keys) (rows df))) \<and>
   (get_top_n_by_news df k c n = Inr (sub', keys', totals) \<longrightarrow>
      columns sub' = columns df \<and>
      (n \<noteq> - 1 \<longrightarrow> rows sub' = filter (isin df k keys') (rows df)) \<and>
      (n = - 1 \<longrightarrow> rows sub' = rows df) \<and>
      (NaN \<notin> set (column_values df k) \<longrightarrow> rows sub' = filter (isin df k keys') (rows df)))"
  using history_subset_rows [of df k d n sub keys] news_subset_rows [of df k c n sub' keys' totals]
  by blast

theorem subset_rows_witness:
  "get_top_n_by_history prices ''ticker'' ''date'' 2 =
     Inr (select_rows prices (isin prices ''ticker'' [Str ''B'', Str ''A'']), [Str ''B'', Str ''A'']) \<and>
   (2::int) \<noteq> - 1 \<and>
   rows (select_rows prices (isin prices ''ticker'' [Str ''B'', Str ''A'']))
     = filter (isin prices ''ticker'' [Str ''B'', Str ''A'']) (rows prices) \<and>
   get_top_n_by_news news ''ticker'' None (- 1) =
     Inr (news, [Str ''Q'', Str ''P''], [(Str ''Q'', 20), (Str ''P'', 10)]) \<and>
   NaN \<notin> set (column_values news ''ticker'') \<and>
   rows news = filter (isin news ''ticker'' [Str ''Q'', Str ''P'']) (rows news)"
proof -
  have h: "get_top_n_by_history prices ''ticker'' ''date'' 2 =
     Inr (select_rows prices (isin prices ''ticker'' [Str ''B'', Str ''A'']), [Str ''B'', Str ''A''])"
    by code_simp
  have w: "get_top_n_by_news news ''ticker'' None (- 1) =
     Inr (news, [Str ''Q'', Str ''P''], [(Str ''Q'', 20), (Str ''P'', 10)])"
    by code_simp
  have nn: "NaN \<notin> set (column_values news ''ticker'')"
    by (simp add: column_values_def news_def get_cell_def)
  have two: "(2::int) \<noteq> - 1" by simp
  from subset_rows [of prices "''ticker''" "''date''" 2
      "select_rows prices (isin prices ''ticker'' [Str ''B'', Str ''A''])" "[Str ''B'', Str ''A'']"
      None news "[Str ''Q'', Str ''P'']" "[(Str ''Q'', 20), (Str ''P'', 10)]"] h two
  have r1: "rows (select_rows prices (isin prices ''ticker'' [Str ''B'', Str ''A'']))
     = filter (isin prices ''ticker'' [Str ''B'', Str ''A'']) (rows prices)"
    by blast
  from subset_rows [of news "''ticker''" "''date''" "- 1" news "[]" None
      news "[Str ''Q'', Str ''P'']" "[(Str ''Q'', 20), (Str ''P'', 10)]"] w nn
  have r2: "rows news = filter (isin news ''ticker'' [Str ''Q'', Str ''P'']) (rows news)"
    by blast
  from h two r1 w nn r2 show ?thesis by blast
qed

theorem subset_rows_counterexample:
  "get_top_n_by_history null_key ''ticker'' ''date'' (- 1) = Inr (null_key, [Str ''A'']) \<and>
   rows null_key \<noteq> filter (isin null_key ''ticker'' [Str ''A'']) (rows null_key)"
proof -
  have "get_top_n_by_history null_key ''ticker'' ''date'' (- 1) = Inr (null_key, [Str ''A''])"
    by code_simp
  moreover have "rows null_key \<noteq> filter (isin null_key ''ticker'' [Str ''A'']) (rows null_key)"
    by (simp add: null_key_def isin_def get_cell_def)
  ultimately show ?thesis by blast
qed

subsection \<open>The selected keys\<close>

lemma head_nonneg:
  assumes "0 \<le> n" and d: "distinct gs"
  shows "length (head n (ranked f gs)) = min (nat n) (length gs)"
    and "distinct (head n (ranked f gs))"
    and "set (head n (ranked f gs)) \<subseteq> set gs"
    and "length gs \<le> nat n \<Longrightarrow> set (head n (ranked f gs)) = set gs"
proof -
  from assms(1) have h: "head n (ranked f gs) = take (nat n) (ranked f gs)"
    by (simp add: head_def)
  show "length (head n (ranked f gs)) = min (nat n) (length gs)"
    by (simp add: h length_ranked min.commute)
  show "distinct (head n (ranked f gs))"
    using d by (simp add: distinct_head distinct_ranked)
  show "set (head n (ranked f gs)) \<subseteq> set gs"
    using set_head [of n "ranked f gs"] by (simp add: set_ranked)
  show "set (head n (ranked f gs)) = set gs" if "length gs \<le> nat n"
    using that by (simp add: h length_ranked set_ranked)
qed

lemma news_keys_nonneg:
  assumes "get_top_n_by_news df k c n = Inr (sub, keys, totals)" and "0 \<le> n"
  shows "length keys = min (nat n) (card (set (column_values df k) - {NaN})) \<and>
         distinct keys \<and> set keys \<subseteq> set (column_values df k) - {NaN} \<and>
         (card (set (column_values df k) - {NaN}) \<le> nat n \<longrightarrow>
            set keys = set (column_values df k) - {NaN})"
proof -
  from news_Inr [OF assms(1)] obtain f where p: "k \<in> set (columns df)"
    and t: "news_totals df k c = Inr (tabulate f (group_keys df k))"
    by blast
  from assms(2) have n: "n \<noteq> - 1" by simp
  from news_top [OF p t n] assms(1) have k: "keys = head n (ranked f (group_keys df k))" by simp
  note hd = head_nonneg [OF assms(2) distinct_group_keys [of df k], of f,
      unfolded length_group_keys set_group_keys]
  show ?thesis unfolding k using hd(1) hd(2) hd(3) hd(4) by blast
qed

text \<open>
  C3, amended. Let \<open>g\<close> be the number of distinct non-missing values of the key column,
  the key column be present and \<open>n \<ge> 0\<close>. \<open>get_top_n_by_history\<close> returns, and its key
  list has length \<open>min n g\<close>, has no duplicate, holds non-missing values of the key column
  only, and holds every such value when \<open>n\<close> is at least \<open>g\<close>. Every key list
  \<open>get_top_n_by_news\<close> returns has the same four properties, and \<open>get_top_n_by_news\<close>
  returns when the column it sums is numeric.
\<close>

theorem top_keys_length:
  assumes "wf_frame df" and "k \<in> set (columns df)" and "0 \<le> n"
  shows "(\<exists>sub keys. get_top_n_by_history df k d n = Inr (sub, keys) \<and>
            length keys = min (nat n) (card (set (column_values df k) - {NaN})) \<and>
            distinct keys \<and> set keys \<subseteq> set (column_values df k) - {NaN} \<and>
            (card (set (column_values df k) - {NaN}) \<le> nat n \<longrightarrow>
               set keys = set (column_values df k) - {NaN})) \<and>
         (\<forall>sub keys totals. get_top_n_by_news df k c n = Inr (sub, keys, totals) \<longrightarrow>
            length keys = min (nat n) (card (set (column_values df k) - {NaN})) \<and>
            distinct keys \<and> set keys \<subseteq> set (column_values df k) - {NaN} \<and>
            (card (set (column_values df k) - {NaN}) \<le> nat n \<longrightarrow>
               set keys = set (column_values df k) - {NaN})) \<and>
         (count_numeric df c \<longrightarrow>
            (\<exists>sub keys totals. get_top_n_by_news df k c n = Inr (sub, keys, totals)))"
proof -
  from assms(3) have n: "n \<noteq> - 1" by simp
  note hd = head_nonneg [OF assms(3) distinct_group_keys [of df k],
      unfolded length_group_keys set_group_keys]
  have A: "\<exists>sub keys. get_top_n_by_history df k d n = Inr (sub, keys) \<and>
            length keys = min (nat n) (card (set (column_values df k) - {NaN})) \<and>
            distinct keys \<and> set keys \<subseteq> set (column_values df k) - {NaN} \<and>
            (card (set (column_values df k) - {NaN}) \<le> nat n \<longrightarrow>
               set keys = set (column_values df k) - {NaN})"
    using history_top [OF assms(2) n, of d] hd [of "history_measure df k d"] by blast
  have B: "\<forall>sub keys totals. get_top_n_by_news df k c n = Inr (sub, keys, totals) \<longrightarrow>
            length keys = min (nat n) (card (set (column_values df k) - {NaN})) \<and>
            distinct keys \<and> set keys \<subseteq> set (column_values df k) - {NaN} \<and>
            (card (set (column_values df k) - {NaN}) \<le> nat n \<longrightarrow>
               set keys = set (column_values df k) - {NaN})"
  proof (intro allI impI)
    fix sub keys totals
    assume "get_top_n_by_news df k c n = Inr (sub, keys, totals)"
    from news_keys_nonneg [OF this assms(3)]
    show "length keys = min (nat n) (card (set (column_values df k) - {NaN})) \<and>
            distinct keys \<and> set keys \<subseteq> set (column_values df k) - {NaN} \<and>
            (card (set (column_values df k) - {NaN}) \<le> nat n \<longrightarrow>
               set keys = set (column_values df k) - {NaN})" .
  qed
  have C: "count_numeric df c \<longrightarrow>
            (\<exists>sub keys totals. get_top_n_by_news df k c n = Inr (sub, keys, totals))"
  proof
    assume "count_numeric df c"
    from news_totals_numeric [OF this, of k] obtain s where s: "news_totals df k c = Inr s"
      by blast
    from news_totals_shape [OF s] s obtain f where
      "news_totals df k c = Inr (tabulate f (group_keys df k))" by auto
    from news_top [OF assms(2) this n]
    show "\<exists>sub keys totals. get_top_n_by_news df k c n = Inr (sub, keys, totals)" by blast
  qed
  show ?thesis by (rule conjI [OF A conjI [OF B C]])
qed

theorem top_keys_length_witness:
  "wf_frame news \<and> ''ticker'' \<in> set (columns news) \<and> (0::int) \<le> 5 \<and> count_numeric news None \<and>
   (\<exists>sub keys. get_top_n_by_history news ''ticker'' ''date'' 5 = Inr (sub, keys) \<and>
            length keys = min (nat 5) (card (set (column_values news ''ticker'') - {NaN})) \<and>
            distinct keys \<and> set keys \<subseteq> set (column_values news ''ticker'') - {NaN} \<and>
            (card (set (column_values news ''ticker'') - {NaN}) \<le> nat 5 \<longrightarrow>
               set keys = set (column_values news ''ticker'') - {NaN})) \<and>
   (\<exists>sub keys totals. get_top_n_by_news news ''ticker'' None 5 = Inr (sub, keys, totals) \<and>
            length keys = min (nat 5) (card (set (column_values news ''ticker'') - {NaN})))"
proof -
  have w: "wf_frame news" by code_simp
  have p: "''ticker'' \<in> set (columns news)" by (simp add: news_def)
  have n: "(0::int) \<le> 5" by simp
  have c: "count_numeric news None" by code_simp
  note t = top_keys_length [OF w p n, of "''date''" None]
  note h = t [THEN conjunct1]
  from t [THEN conjunct2, THEN conjunct2] c obtain sub keys totals where
    r: "get_top_n_by_news news ''ticker'' None 5 = Inr (sub, keys, totals)" by blast
  from t [THEN conjunct2, THEN conjunct1, rule_format, OF r]
  have "length keys = min (nat 5) (card (set (column_values news ''ticker'') - {NaN}))"
    by (rule conjunct1)
  with r have e: "\<exists>sub keys totals. get_top_n_by_news news ''ticker'' None 5 = Inr (sub, keys, totals) \<and>
            length keys = min (nat 5) (card (set (column_values news ''ticker'') - {NaN}))"
    by blast
  show ?thesis
    by (rule conjI [OF w conjI [OF p conjI [OF n conjI [OF c conjI [OF h e]]]]])
qed

theorem top_keys_length_counterexample:
  "get_top_n_by_history null_key ''ticker'' ''date'' 2
     = Inr (select_rows null_key (isin null_key ''ticker'' [Str ''A'']), [Str ''A'']) \<and>
   length [Str ''A''] \<noteq> min (nat 2) (card (set (column_values null_key ''ticker'')))"
proof -
  have "get_top_n_by_history null_key ''ticker'' ''date'' 2
     = Inr (select_rows null_key (isin null_key ''ticker'' [Str ''A'']), [Str ''A''])"
    by code_simp
  moreover have "card (set (column_values null_key ''ticker'')) = 2"
    by (simp add: column_values_def null_key_def get_cell_def)
  ultimately show ?thesis by simp
qed


subsection \<open>The order of the selected keys\<close>

lemma history_sorted:
  assumes "get_top_n_by_history df k d n = Inr (sub, keys)"
  shows "sorted_wrt (\<lambda>x y. y \<le> x) (map (history_measure df k d) keys)"
proof -
  have p: "k \<in> set (columns df)" using assms by (rule history_Inr)
  show ?thesis
  proof (cases "n = - 1")
    case True
    with assms history_all [OF p, of d] show ?thesis by (auto simp: sorted_ranked)
  next
    case False
    with assms history_top [OF p False, of d] show ?thesis
      by (auto intro: sorted_head sorted_ranked)
  qed
qed

text \<open>
  The totals the news ranker returns are the entries of the aggregated series at the
  returned keys, in the order of the keys.
\<close>

lemma news_totals_of_keys:
  assumes "get_top_n_by_news df k c n = Inr (sub, keys, totals)"
  shows "\<exists>f. news_totals df k c = Inr (tabulate f (group_keys df k)) \<and>
             totals = tabulate f keys \<and> set keys \<subseteq> set (group_keys df k) \<and>
             sorted_wrt (\<lambda>x y. y \<le> x) (map f keys)"
proof -
  from news_Inr [OF assms] obtain f where p: "k \<in> set (columns df)"
    and t: "news_totals df k c = Inr (tabulate f (group_keys df k))"
    by blast
  have "totals = tabulate f keys \<and> set keys \<subseteq> set (group_keys df k) \<and>
        sorted_wrt (\<lambda>x y. y \<le> x) (map f keys)"
  proof (cases "n = - 1")
    case True
    with assms news_all [OF p t] show ?thesis by (auto simp: sorted_ranked set_ranked)
  next
    case False
    from assms news_top [OF p t False]
    have k: "keys = head n (ranked f (group_keys df k))" and "totals = tabulate f keys"
      by auto
    moreover from k set_head [of n "ranked f (group_keys df k)"]
    have "set keys \<subseteq> set (group_keys df k)" by (simp add: set_ranked)
    moreover from k have "sorted_wrt (\<lambda>x y. y \<le> x) (map f keys)"
      by (auto intro: sorted_head sorted_ranked)
    ultimately show ?thesis by blast
  qed
  with t show ?thesis by blast
qed

lemma news_sorted:
  assumes "get_top_n_by_news df k c n = Inr (sub, keys, totals)"
  shows "index_tolist totals = keys"
    and "sorted_wrt (\<lambda>x y. y \<le> x) (map snd totals)"
    and "\<exists>s. news_totals df k c = Inr s \<and> distinct (index_tolist s) \<and> set totals \<subseteq> set s"
proof -
  from news_totals_of_keys [OF assms] obtain f where
    t: "news_totals df k c = Inr (tabulate f (group_keys df k))"
    and e: "totals = tabulate f keys" and s: "set keys \<subseteq> set (group_keys df k)"
    and o: "sorted_wrt (\<lambda>x y. y \<le> x) (map f keys)"
    by blast
  from e show "index_tolist totals = keys" by (simp add: index_tabulate)
  from e o show "sorted_wrt (\<lambda>x y. y \<le> x) (map snd totals)"
    by (simp add: tabulate_def comp_def)
  from t e tabulate_subset [OF s, of f]
  show "\<exists>s. news_totals df k c = Inr s \<and> distinct (index_tolist s) \<and> set totals \<subseteq> set s"
    by (auto simp: index_tabulate distinct_group_keys)
qed

text \<open>
  C4, amended. For both rankers and every frame of the data model, whenever a call
  returns, the measures of the returned keys, read in the order of the list, never
  increase. For the history ranker the measure
  of a key is \<open>history_measure\<close>; for the news ranker it is the value the returned totals
  hold at the key, which is the entry of the aggregated series \<^verbatim>\<open>totals\<close> at that key.
  Nothing is stated about the order of keys of equal measure.
\<close>

theorem sorted_by_measure:
  "(wf_frame df \<and> get_top_n_by_history df k d n = Inr (sub, keys) \<longrightarrow>
      sorted_wrt (\<lambda>x y. y \<le> x) (map (history_measure df k d) keys)) \<and>
   (wf_frame df \<and> get_top_n_by_news df k c n = Inr (sub', keys', totals) \<longrightarrow>
      index_tolist totals = keys' \<and> sorted_wrt (\<lambda>x y. y \<le> x) (map snd totals) \<and>
      (\<exists>s. news_totals df k c = Inr s \<and> distinct (index_tolist s) \<and> set totals \<subseteq> set s))"
  using history_sorted [of df k d n sub keys] news_sorted [of df k c n sub' keys' totals]
  by blast

theorem sorted_by_measure_witness:
  "wf_frame prices \<and> wf_frame big_news \<and>
   get_top_n_by_history prices ''ticker'' ''date'' (- 1) = Inr (prices, [Str ''B'', Str ''A'', Str ''C'']) \<and>
   sorted_wrt (\<lambda>x y. y \<le> x) (map (history_measure prices ''ticker'' ''date'') [Str ''B'', Str ''A'', Str ''C'']) \<and>
   get_top_n_by_news big_news ''ticker'' None (- 1) =
     Inr (big_news, [Str ''Q'', Str ''P''], [(Str ''Q'', 1), (Str ''P'', - (2 ^ 63))]) \<and>
   sorted_wrt (\<lambda>x y. y \<le> x) (map snd [(Str ''Q'', 1), (Str ''P'', - (2 ^ 63) :: int)])"
proof -
  have w1: "wf_frame prices" by code_simp
  have w2: "wf_frame big_news" by code_simp
  have h: "get_top_n_by_history prices ''ticker'' ''date'' (- 1) = Inr (prices, [Str ''B'', Str ''A'', Str ''C''])"
    by code_simp
  have w: "get_top_n_by_news big_news ''ticker'' None (- 1) =
     Inr (big_news, [Str ''Q'', Str ''P''], [(Str ''Q'', 1), (Str ''P'', - (2 ^ 63))])"
    by code_simp
  from sorted_by_measure [of prices "''ticker''" "''date''" "- 1" prices
      "[Str ''B'', Str ''A'', Str ''C'']" None prices "[]" "[]"] h w1
  have s1: "sorted_wrt (\<lambda>x y. y \<le> x)
      (map (history_measure prices ''ticker'' ''date'') [Str ''B'', Str ''A'', Str ''C''])"
    by blast
  from sorted_by_measure [of big_news "''ticker''" "''date''" "- 1" big_news "[]" None big_news
      "[Str ''Q'', Str ''P'']" "[(Str ''Q'', 1), (Str ''P'', - (2 ^ 63))]"] w w2
  have s2: "sorted_wrt (\<lambda>x y. y \<le> x) (map snd [(Str ''Q'', 1), (Str ''P'', - (2 ^ 63) :: int)])"
    by blast
  from w1 w2 h s1 w s2 show ?thesis by blast
qed

theorem sorted_by_measure_counterexample:
  "column_values tie ''ticker'' = [Str ''B'', Str ''A'', Str ''C''] \<and>
   history_measure tie ''ticker'' ''date'' (Str ''B'') = 1 \<and>
   history_measure tie ''ticker'' ''date'' (Str ''A'') = 1 \<and>
   history_measure tie ''ticker'' ''date'' (Str ''C'') = 1 \<and>
   get_top_n_by_history tie ''ticker'' ''date'' 3
     = Inr (select_rows tie (isin tie ''ticker'' [Str ''A'', Str ''B'', Str ''C'']),
            [Str ''A'', Str ''B'', Str ''C'']) \<and>
   [Str ''A'', Str ''B'', Str ''C''] \<noteq> column_values tie ''ticker''"
proof -
  have c: "column_values tie ''ticker'' = [Str ''B'', Str ''A'', Str ''C'']" by code_simp
  have "history_measure tie ''ticker'' ''date'' (Str ''B'') = 1" by code_simp
  moreover have "history_measure tie ''ticker'' ''date'' (Str ''A'') = 1" by code_simp
  moreover have "history_measure tie ''ticker'' ''date'' (Str ''C'') = 1" by code_simp
  moreover have "get_top_n_by_history tie ''ticker'' ''date'' 3
     = Inr (select_rows tie (isin tie ''ticker'' [Str ''A'', Str ''B'', Str ''C'']),
            [Str ''A'', Str ''B'', Str ''C''])"
    by code_simp
  moreover from c have "[Str ''A'', Str ''B'', Str ''C''] \<noteq> column_values tie ''ticker''"
    by simp
  ultimately show ?thesis using c by blast
qed

subsection \<open>The totals of the news ranker\<close>



subsection \<open>The measures\<close>

lemma wrap64_id: "int64 i \<Longrightarrow> wrap64 i = i"
proof -
  assume "int64 i"
  then have "0 \<le> i + 2 ^ 63" and "i + 2 ^ 63 < (2 ^ 64 :: int)"
    by (simp_all add: int64_def)
  then have "(i + 2 ^ 63) mod 2 ^ 64 = i + 2 ^ 63" by simp
  then show ?thesis by (simp add: wrap64_def)
qed

lemma sum_as_exact: "int64 (sum_list (skipna xs)) \<Longrightarrow> sum_as t xs = sum_list (skipna xs)"
  by (cases t) (simp_all add: wrap64_id)

lemma groupby_sum_at:
  assumes "g \<in> set (group_keys df k)" and "numeric_dtype (column_values df s) = Some t"
  shows "\<exists>tot. groupby_sum df k s = Inr tot \<and>
           map_of tot g = Some (sum_as t (group_cells df k s g)) \<and>
           (int64 (sum_list (skipna (group_cells df k s g))) \<longrightarrow>
              map_of tot g = Some (sum_list (skipna (group_cells df k s g))))"
  using assms by (simp add: groupby_sum_numeric map_of_tabulate sum_as_exact)

text \<open>
  C6, amended. In \<open>get_top_n_by_news\<close> the measure of a group is chosen in this order.
  When \<open>news_count_col\<close> is given, is not the empty string and names a column of the
  dataset, the measure is the sum pandas computes for that column over the rows of the
  group. Otherwise (nothing given, the empty string given, or a name that is no column),
  when a column named \<open>news_count\<close> is present, the measure is the sum of that column over
  the rows of the group. Otherwise it is the number of rows of the group. The sum of a
  numeric column is \<open>sum_as\<close>: for a column of 64-bit whole numbers the sum of the
  numbers of the group reduced to 64 bits, for a column with missing values the sum of the
  numbers that are there. In both cases it is the exact sum whenever that fits in 64 bits.
  The totals the ranker returns with \<open>n = -1\<close> hold this measure at every group.
\<close>

theorem news_measure_priority:
  assumes "wf_frame df" and "g \<in> set (group_keys df k)"
  shows "(c = Some s \<and> s \<noteq> [] \<and> s \<in> set (columns df) \<longrightarrow>
            news_totals df k c = groupby_sum df k s \<and>
            (\<forall>t. numeric_dtype (column_values df s) = Some t \<longrightarrow>
               (\<exists>tot. news_totals df k c = Inr tot \<and>
                  map_of tot g = Some (sum_as t (group_cells df k s g)) \<and>
                  (int64 (sum_list (skipna (group_cells df k s g))) \<longrightarrow>
                     map_of tot g = Some (sum_list (skipna (group_cells df k s g))))))) \<and>
         ((c = None \<or> c = Some [] \<or> (c = Some s \<and> s \<notin> set (columns df))) \<and>
          ''news_count'' \<in> set (columns df) \<longrightarrow>
            news_totals df k c = groupby_sum df k ''news_count'' \<and>
            (\<forall>t. numeric_dtype (column_values df ''news_count'') = Some t \<longrightarrow>
               (\<exists>tot. news_totals df k c = Inr tot \<and>
                  map_of tot g = Some (sum_as t (group_cells df k ''news_count'' g)) \<and>
                  (int64 (sum_list (skipna (group_cells df k ''news_count'' g))) \<longrightarrow>
                     map_of tot g
                       = Some (sum_list (skipna (group_cells df k ''news_count'' g))))))) \<and>
         ((c = None \<or> c = Some [] \<or> (c = Some s \<and> s \<notin> set (columns df))) \<and>
          ''news_count'' \<notin> set (columns df) \<longrightarrow>
            (\<exists>tot. news_totals df k c = Inr tot \<and>
               map_of tot g = Some (int (length (group_rows df k g))))) \<and>
         (\<forall>sub keys totals.
            get_top_n_by_news df k c (- 1) = Inr (sub, keys, totals) \<longrightarrow>
            (\<exists>tot. news_totals df k c = Inr tot \<and> map_of totals g = map_of tot g))"
proof -
  have A: "c = Some s \<and> s \<noteq> [] \<and> s \<in> set (columns df) \<longrightarrow>
            news_totals df k c = groupby_sum df k s \<and>
            (\<forall>t. numeric_dtype (column_values df s) = Some t \<longrightarrow>
               (\<exists>tot. news_totals df k c = Inr tot \<and>
                  map_of tot g = Some (sum_as t (group_cells df k s g)) \<and>
                  (int64 (sum_list (skipna (group_cells df k s g))) \<longrightarrow>
                     map_of tot g = Some (sum_list (skipna (group_cells df k s g))))))"
  proof
    assume "c = Some s \<and> s \<noteq> [] \<and> s \<in> set (columns df)"
    then have e: "news_totals df k c = groupby_sum df k s" by (simp add: news_totals_def)
    with groupby_sum_at [OF assms(2), of s]
    show "news_totals df k c = groupby_sum df k s \<and>
            (\<forall>t. numeric_dtype (column_values df s) = Some t \<longrightarrow>
               (\<exists>tot. news_totals df k c = Inr tot \<and>
                  map_of tot g = Some (sum_as t (group_cells df k s g)) \<and>
                  (int64 (sum_list (skipna (group_cells df k s g))) \<longrightarrow>
                     map_of tot g = Some (sum_list (skipna (group_cells df k s g))))))"
      by simp
  qed
  have skip: "\<not> (truthy c \<and> col_name c \<in> set (columns df))"
    if "c = None \<or> c = Some [] \<or> (c = Some s \<and> s \<notin> set (columns df))"
    using that by auto
  have B: "(c = None \<or> c = Some [] \<or> (c = Some s \<and> s \<notin> set (columns df))) \<and>
          ''news_count'' \<in> set (columns df) \<longrightarrow>
            news_totals df k c = groupby_sum df k ''news_count'' \<and>
            (\<forall>t. numeric_dtype (column_values df ''news_count'') = Some t \<longrightarrow>
               (\<exists>tot. news_totals df k c = Inr tot \<and>
                  map_of tot g = Some (sum_as t (group_cells df k ''news_count'' g)) \<and>
                  (int64 (sum_list (skipna (group_cells df k ''news_count'' g))) \<longrightarrow>
                     map_of tot g
                       = Some (sum_list (skipna (group_cells df k ''news_count'' g))))))"
  proof
    assume a: "(c = None \<or> c = Some [] \<or> (c = Some s \<and> s \<notin> set (columns df))) \<and>
          ''news_count'' \<in> set (columns df)"
    with skip have nk: "\<not> (truthy c \<and> col_name c \<in> set (columns df))" by blast
    with a have e: "news_totals df k c = groupby_sum df k ''news_count''"
      by (auto simp: news_totals_def)
    with groupby_sum_at [OF assms(2), of "''news_count''"]
    show "news_totals df k c = groupby_sum df k ''news_count'' \<and>
            (\<forall>t. numeric_dtype (column_values df ''news_count'') = Some t \<longrightarrow>
               (\<exists>tot. news_totals df k c = Inr tot \<and>
                  map_of tot g = Some (sum_as t (group_cells df k ''news_count'' g)) \<and>
                  (int64 (sum_list (skipna (group_cells df k ''news_count'' g))) \<longrightarrow>
                     map_of tot g
                       = Some (sum_list (skipna (group_cells df k ''news_count'' g))))))"
      by simp
  qed
  have C: "(c = None \<or> c = Some [] \<or> (c = Some s \<and> s \<notin> set (columns df))) \<and>
          ''news_count'' \<notin> set (columns df) \<longrightarrow>
            (\<exists>tot. news_totals df k c = Inr tot \<and>
               map_of tot g = Some (int (length (group_rows df k g))))"
  proof
    assume a: "(c = None \<or> c = Some [] \<or> (c = Some s \<and> s \<notin> set (columns df))) \<and>
          ''news_count'' \<notin> set (columns df)"
    with skip have nk: "\<not> (truthy c \<and> col_name c \<in> set (columns df))" by blast
    with a have "news_totals df k c
        = Inr (tabulate (\<lambda>g. int (length (group_rows df k g))) (group_keys df k))"
      by (auto simp: news_totals_def groupby_size_def tabulate_def)
    with map_of_tabulate [OF assms(2), of "\<lambda>g. int (length (group_rows df k g))"]
    show "\<exists>tot. news_totals df k c = Inr tot \<and>
               map_of tot g = Some (int (length (group_rows df k g)))"
      by simp
  qed
  have D: "\<forall>sub keys totals.
            get_top_n_by_news df k c (- 1) = Inr (sub, keys, totals) \<longrightarrow>
            (\<exists>tot. news_totals df k c = Inr tot \<and> map_of totals g = map_of tot g)"
  proof (intro allI impI)
    fix sub keys totals
    assume r: "get_top_n_by_news df k c (- 1) = Inr (sub, keys, totals)"
    from news_Inr [OF r] obtain f where p: "k \<in> set (columns df)"
      and t: "news_totals df k c = Inr (tabulate f (group_keys df k))"
      by blast
    from news_all [OF p t] r
    have "totals = tabulate f (ranked f (group_keys df k))" by simp
    moreover from assms(2) have "g \<in> set (ranked f (group_keys df k))"
      by (simp add: set_ranked)
    ultimately have "map_of totals g = Some (f g)" by (simp add: map_of_tabulate)
    with t map_of_tabulate [OF assms(2), of f]
    show "\<exists>tot. news_totals df k c = Inr tot \<and> map_of totals g = map_of tot g" by simp
  qed
  show ?thesis by (rule conjI [OF A conjI [OF B conjI [OF C D]]])
qed

theorem news_measure_priority_witness:
  "wf_frame news_hits \<and> wf_frame news_plain \<and>
   Str ''P'' \<in> set (group_keys news_hits ''ticker'') \<and>
   ''hits'' \<noteq> [] \<and> ''hits'' \<in> set (columns news_hits) \<and>
   numeric_dtype (column_values news_hits ''hits'') = Some Int64 \<and>
   (\<exists>tot. news_totals news_hits ''ticker'' (Some ''hits'') = Inr tot \<and>
      map_of tot (Str ''P'') = Some (sum_as Int64 (group_cells news_hits ''ticker'' ''hits'' (Str ''P'')))) \<and>
   ''news_count'' \<in> set (columns news_hits) \<and>
   news_totals news_hits ''ticker'' None = groupby_sum news_hits ''ticker'' ''news_count'' \<and>
   Str ''P'' \<in> set (group_keys news_plain ''ticker'') \<and>
   ''hits'' \<notin> set (columns news_plain) \<and>
   ''news_count'' \<notin> set (columns news_plain) \<and>
   (\<exists>tot. news_totals news_plain ''ticker'' (Some ''hits'') = Inr tot \<and>
      map_of tot (Str ''P'') = Some (int (length (group_rows news_plain ''ticker'' (Str ''P'')))))"
proof -
  have w1: "wf_frame news_hits" by code_simp
  have w2: "wf_frame news_plain" by code_simp
  have g1: "Str ''P'' \<in> set (group_keys news_hits ''ticker'')" by code_simp
  have g2: "Str ''P'' \<in> set (group_keys news_plain ''ticker'')" by code_simp
  have c1: "''hits'' \<noteq> [] \<and> ''hits'' \<in> set (columns news_hits)" by (simp add: news_hits_def)
  have d1: "numeric_dtype (column_values news_hits ''hits'') = Some Int64" by code_simp
  have c2: "''news_count'' \<in> set (columns news_hits)" by (simp add: news_hits_def)
  have c3: "''hits'' \<notin> set (columns news_plain) \<and> ''news_count'' \<notin> set (columns news_plain)"
    by (simp add: news_plain_def)
  note t1 = news_measure_priority [OF w1 g1, of "Some ''hits''" "''hits''", THEN conjunct1]
  from t1 c1 d1
  have r1: "\<exists>tot. news_totals news_hits ''ticker'' (Some ''hits'') = Inr tot \<and>
      map_of tot (Str ''P'') = Some (sum_as Int64 (group_cells news_hits ''ticker'' ''hits'' (Str ''P'')))"
    by blast
  note t2 = news_measure_priority [OF w1 g1, of None "[]", THEN conjunct2, THEN conjunct1]
  from t2 c2
  have r2: "news_totals news_hits ''ticker'' None = groupby_sum news_hits ''ticker'' ''news_count''"
    by blast
  note t3 = news_measure_priority [OF w2 g2, of "Some ''hits''" "''hits''", THEN conjunct2, THEN conjunct2, THEN conjunct1]
  from t3 c3
  have r3: "\<exists>tot. news_totals news_plain ''ticker'' (Some ''hits'') = Inr tot \<and>
      map_of tot (Str ''P'') = Some (int (length (group_rows news_plain ''ticker'' (Str ''P''))))"
    by blast
  from w1 w2 g1 g2 c1 d1 c2 c3 r1 r2 r3 show ?thesis by blast
qed

theorem news_measure_priority_counterexample:
  "[] \<in> set (columns blank_name) \<and>
   numeric_dtype (column_values blank_name []) = Some Int64 \<and>
   sum_as Int64 (group_cells blank_name ''ticker'' [] (Str ''A'')) = 5 \<and>
   get_top_n_by_news blank_name ''ticker'' (Some []) (- 1)
     = Inr (blank_name, [Str ''A''], [(Str ''A'', 1)])"
proof -
  have "[] \<in> set (columns blank_name)" by (simp add: blank_name_def)
  moreover have "numeric_dtype (column_values blank_name []) = Some Int64" by code_simp
  moreover have "sum_as Int64 (group_cells blank_name ''ticker'' [] (Str ''A'')) = 5"
    by code_simp
  moreover have "get_top_n_by_news blank_name ''ticker'' (Some []) (- 1)
     = Inr (blank_name, [Str ''A''], [(Str ''A'', 1)])"
    by code_simp
  ultimately show ?thesis by blast
qed

lemma history_counts_at:
  "g \<in> set (group_keys df k) \<Longrightarrow>
   map_of (history_counts df k d) g = Some (history_measure df k d g)"
  by (simp add: history_counts_tabulate map_of_tabulate)

lemma nunique_card: "nunique xs = int (card (set xs - {NaN}))"
proof -
  have "set (filter (\<lambda>c. c \<noteq> NaN) xs) = set xs - {NaN}" by auto
  then show ?thesis by (simp add: nunique_def length_remdups_card_conv)
qed

text \<open>
  C7, amended. In \<open>get_top_n_by_history\<close> the measure of a group is the number of
  distinct non-missing values of the date column among the rows of the group when the
  dataset has the date column: equal dates count once and missing dates are not counted.
  When the dataset has no date column, the measure is the number of rows of the group.
\<close>

theorem history_measure_dates:
  assumes "g \<in> set (group_keys df k)"
  shows "(d \<in> set (columns df) \<longrightarrow>
            map_of (history_counts df k d) g
              = Some (int (card (set (map (get_cell df d) (group_rows df k g)) - {NaN})))) \<and>
         (d \<notin> set (columns df) \<longrightarrow>
            map_of (history_counts df k d) g = Some (int (length (group_rows df k g))))"
  using history_counts_at [OF assms, of d] by (simp add: history_measure_def nunique_card)

theorem history_measure_dates_witness:
  "Str ''B'' \<in> set (group_keys prices ''ticker'') \<and>
   ''date'' \<in> set (columns prices) \<and>
   map_of (history_counts prices ''ticker'' ''date'') (Str ''B'')
     = Some (int (card (set (map (get_cell prices ''date'') (group_rows prices ''ticker'' (Str ''B''))) - {NaN}))) \<and>
   ''day'' \<notin> set (columns prices) \<and>
   map_of (history_counts prices ''ticker'' ''day'') (Str ''B'')
     = Some (int (length (group_rows prices ''ticker'' (Str ''B''))))"
proof -
  have g: "Str ''B'' \<in> set (group_keys prices ''ticker'')" by code_simp
  have c1: "''date'' \<in> set (columns prices)" by (simp add: prices_def)
  have c2: "''day'' \<notin> set (columns prices)" by (simp add: prices_def)
  from history_measure_dates [OF g, of "''date''"] history_measure_dates [OF g, of "''day''"]
    g c1 c2
  show ?thesis by blast
qed

theorem history_measure_dates_counterexample:
  "column_values null_date ''date'' = [Str ''d1'', NaN, NaN] \<and>
   card (set (map (get_cell null_date ''date'') (group_rows null_date ''ticker'' (Str ''A'')))) = 2 \<and>
   history_counts null_date ''ticker'' ''date'' = [(Str ''A'', 1)]"
proof -
  have "column_values null_date ''date'' = [Str ''d1'', NaN, NaN]" by code_simp
  moreover have "map (get_cell null_date ''date'') (group_rows null_date ''ticker'' (Str ''A''))
      = [Str ''d1'', NaN, NaN]"
    by code_simp
  then have "card (set (map (get_cell null_date ''date'')
      (group_rows null_date ''ticker'' (Str ''A'')))) = 2"
    by simp
  moreover have "history_counts null_date ''ticker'' ''date'' = [(Str ''A'', 1)]" by code_simp
  ultimately show ?thesis by blast
qed

subsection \<open>The calls with a negative \<open>n\<close>\<close>

lemma news_all_keys:
  assumes "get_top_n_by_news df k c (- 1) = Inr (sub, keys, totals)"
  shows "sub = df" and "set keys = set (column_values df k) - {NaN}" and "distinct keys"
proof -
  from news_Inr [OF assms] obtain f where p: "k \<in> set (columns df)"
    and t: "news_totals df k c = Inr (tabulate f (group_keys df k))"
    by blast
  from news_all [OF p t] assms
  have s: "sub = df" and k: "keys = ranked f (group_keys df k)" by simp_all
  from s show "sub = df" .
  from k show "set keys = set (column_values df k) - {NaN}"
    by (simp add: set_ranked set_group_keys)
  from k show "distinct keys" by (simp add: distinct_ranked distinct_group_keys)
qed

lemma news_returns:
  assumes "k \<in> set (columns df)" and "count_numeric df c"
  shows "\<exists>sub keys totals. get_top_n_by_news df k c n = Inr (sub, keys, totals)"
    and "\<exists>keys totals. get_top_n_by_news df k c (- 1) = Inr (df, keys, totals)"
proof -
  from news_totals_numeric [OF assms(2), of k] obtain s where s: "news_totals df k c = Inr s"
    by blast
  from news_totals_shape [OF s] s obtain f where
    t: "news_totals df k c = Inr (tabulate f (group_keys df k))" by auto
  from news_all [OF assms(1) t] news_top [OF assms(1) t, of n]
  show "\<exists>sub keys totals. get_top_n_by_news df k c n = Inr (sub, keys, totals)"
    by (cases "n = - 1") auto
  from news_all [OF assms(1) t]
  show "\<exists>keys totals. get_top_n_by_news df k c (- 1) = Inr (df, keys, totals)" by blast
qed

text \<open>
  C8, amended. For every dataset with the key column present, \<open>get_top_n_by_history\<close>
  with \<open>n = -1\<close> returns the dataset itself (the same rows in the same order, under the
  same columns) and a key list without duplicates whose set is the set of distinct
  non-missing values of the key column. Whatever \<open>get_top_n_by_news\<close> returns with
  \<open>n = -1\<close> is the dataset itself with such a key list, and it returns when the column it
  sums is numeric.
\<close>

theorem all_groups:
  assumes "wf_frame df" and "k \<in> set (columns df)"
  shows "(\<exists>keys. get_top_n_by_history df k d (- 1) = Inr (df, keys) \<and>
            set keys = set (column_values df k) - {NaN} \<and> distinct keys) \<and>
         (\<forall>sub keys totals. get_top_n_by_news df k c (- 1) = Inr (sub, keys, totals) \<longrightarrow>
            sub = df \<and> set keys = set (column_values df k) - {NaN} \<and> distinct keys) \<and>
         (count_numeric df c \<longrightarrow>
            (\<exists>keys totals. get_top_n_by_news df k c (- 1) = Inr (df, keys, totals)))"
proof -
  have A: "\<exists>keys. get_top_n_by_history df k d (- 1) = Inr (df, keys) \<and>
            set keys = set (column_values df k) - {NaN} \<and> distinct keys"
    using history_all [OF assms(2), of d]
    by (simp add: set_ranked set_group_keys distinct_ranked distinct_group_keys)
  have B: "\<forall>sub keys totals. get_top_n_by_news df k c (- 1) = Inr (sub, keys, totals) \<longrightarrow>
            sub = df \<and> set keys = set (column_values df k) - {NaN} \<and> distinct keys"
    using news_all_keys [of df k c] by blast
  have C: "count_numeric df c \<longrightarrow>
            (\<exists>keys totals. get_top_n_by_news df k c (- 1) = Inr (df, keys, totals))"
    using news_returns(2) [OF assms(2), of c] by blast
  show ?thesis by (rule conjI [OF A conjI [OF B C]])
qed

theorem all_groups_witness:
  "wf_frame news \<and> ''ticker'' \<in> set (columns news) \<and> count_numeric news None \<and>
   (\<exists>keys. get_top_n_by_history news ''ticker'' ''date'' (- 1) = Inr (news, keys) \<and>
            set keys = set (column_values news ''ticker'') - {NaN} \<and> distinct keys) \<and>
   (\<exists>keys totals. get_top_n_by_news news ''ticker'' None (- 1) = Inr (news, keys, totals) \<and>
            set keys = set (column_values news ''ticker'') - {NaN} \<and> distinct keys)"
proof -
  have w: "wf_frame news" by code_simp
  have p: "''ticker'' \<in> set (columns news)" by (simp add: news_def)
  have c: "count_numeric news None" by code_simp
  note t = all_groups [OF w p, of "''date''" None]
  note h = t [THEN conjunct1]
  from t [THEN conjunct2, THEN conjunct2] c obtain keys totals where
    r: "get_top_n_by_news news ''ticker'' None (- 1) = Inr (news, keys, totals)" by blast
  from t [THEN conjunct2, THEN conjunct1, rule_format, OF r] r
  have e: "\<exists>keys totals. get_top_n_by_news news ''ticker'' None (- 1) = Inr (news, keys, totals) \<and>
            set keys = set (column_values news ''ticker'') - {NaN} \<and> distinct keys"
    by blast
  show ?thesis by (rule conjI [OF w conjI [OF p conjI [OF c conjI [OF h e]]]])
qed

theorem all_groups_counterexample:
  "get_top_n_by_history null_key ''ticker'' ''date'' (- 1) = Inr (null_key, [Str ''A'']) \<and>
   set (column_values null_key ''ticker'') = {Str ''A'', NaN} \<and>
   set [Str ''A''] \<noteq> set (column_values null_key ''ticker'')"
proof -
  have "get_top_n_by_history null_key ''ticker'' ''date'' (- 1) = Inr (null_key, [Str ''A''])"
    by code_simp
  moreover have "column_values null_key ''ticker'' = [Str ''A'', NaN]" by code_simp
  ultimately show ?thesis by auto
qed






subsection \<open>The store\<close>

lemma history_st_missing:
  "k \<notin> set (columns (st ! a)) \<Longrightarrow>
   get_top_n_by_history_st st a k d n = (st, Inl (KeyError (not_found_msg k)))"
  by (simp add: get_top_n_by_history_st_def)

lemma history_st_all:
  assumes "k \<in> set (columns (st ! a))"
  shows "get_top_n_by_history_st st a k d (- 1) =
           (st @ [st ! a],
            Inr (length st, ranked (history_measure (st ! a) k d) (group_keys (st ! a) k)))"
  using assms
  by (simp add: get_top_n_by_history_st_def history_counts_tabulate ranked_def copy_def Let_def)

lemma history_st_top:
  assumes "k \<in> set (columns (st ! a))" and "n \<noteq> - 1"
  shows "get_top_n_by_history_st st a k d n =
           (st @ [select_rows (st ! a) (isin (st ! a) k
                    (head n (ranked (history_measure (st ! a) k d) (group_keys (st ! a) k)))),
                  select_rows (st ! a) (isin (st ! a) k
                    (head n (ranked (history_measure (st ! a) k d) (group_keys (st ! a) k))))],
            Inr (Suc (length st),
                 head n (ranked (history_measure (st ! a) k d) (group_keys (st ! a) k))))"
  using assms
  by (simp add: get_top_n_by_history_st_def history_counts_tabulate ranked_def copy_def
      getitem_def index_head Let_def nth_append)

lemma news_st_missing:
  "k \<notin> set (columns (st ! a)) \<Longrightarrow>
   get_top_n_by_news_st st a k c n = (st, Inl (KeyError (not_found_msg k)))"
  by (simp add: get_top_n_by_news_st_def)

lemma news_st_error:
  "k \<in> set (columns (st ! a)) \<Longrightarrow> news_totals (st ! a) k c = Inl e \<Longrightarrow>
   get_top_n_by_news_st st a k c n = (st, Inl e)"
  by (simp add: get_top_n_by_news_st_def)

lemma news_st_all:
  assumes "k \<in> set (columns (st ! a))" and "news_totals (st ! a) k c = Inr (tabulate f gs)"
  shows "get_top_n_by_news_st st a k c (- 1) =
           (st @ [st ! a], Inr (length st, ranked f gs, tabulate f (ranked f gs)))"
proof -
  have "loc (tabulate f gs) (ranked f gs) = Inr (tabulate f (ranked f gs))"
    by (rule loc_tabulate) (simp add: set_ranked)
  with assms show ?thesis
    by (simp add: get_top_n_by_news_st_def ranked_def [symmetric] copy_def Let_def)
qed

lemma news_st_top:
  assumes "k \<in> set (columns (st ! a))" and "news_totals (st ! a) k c = Inr (tabulate f gs)"
    and "n \<noteq> - 1"
  shows "get_top_n_by_news_st st a k c n =
           (st @ [select_rows (st ! a) (isin (st ! a) k (head n (ranked f gs))),
                  select_rows (st ! a) (isin (st ! a) k (head n (ranked f gs)))],
            Inr (Suc (length st), head n (ranked f gs), tabulate f (head n (ranked f gs))))"
proof -
  have "set (head n (ranked f gs)) \<subseteq> set gs"
    using set_head [of n "ranked f gs"] by (simp add: set_ranked)
  then have "loc (tabulate f gs) (head n (ranked f gs)) = Inr (tabulate f (head n (ranked f gs)))"
    by (rule loc_tabulate)
  with assms show ?thesis
    by (simp add: get_top_n_by_news_st_def index_head ranked_def [symmetric] copy_def
        getitem_def Let_def nth_append)
qed

text \<open>
  What a call leaves: the store it found, with one or two frames added at the end, and a
  reference to the last of them.
\<close>

lemma history_st_result:
  assumes "get_top_n_by_history_st st a k d n = (st', r)"
  shows "\<exists>zs. st' = st @ zs \<and>
           (\<forall>s keys. r = Inr (s, keys) \<longrightarrow>
              zs \<noteq> [] \<and> s = length st + (length zs - 1) \<and>
              get_top_n_by_history (st ! a) k d n = Inr (last zs, keys))"
proof (cases "k \<in> set (columns (st ! a))")
  case False
  from history_st_missing [OF False, of d n] assms show ?thesis by auto
next
  case True
  show ?thesis
  proof (cases "n = - 1")
    case n: True
    from history_st_all [OF True, of d] history_all [OF True, of d] assms n show ?thesis
      by auto
  next
    case n: False
    from history_st_top [OF True n, of d] history_top [OF True n, of d] assms show ?thesis
      by auto
  qed
qed

lemma news_st_result:
  assumes "get_top_n_by_news_st st a k c n = (st', r)"
  shows "\<exists>zs. st' = st @ zs \<and>
           (\<forall>s keys totals. r = Inr (s, keys, totals) \<longrightarrow>
              zs \<noteq> [] \<and> s = length st + (length zs - 1) \<and>
              get_top_n_by_news (st ! a) k c n = Inr (last zs, keys, totals))"
proof (cases "k \<in> set (columns (st ! a))")
  case False
  from news_st_missing [OF False, of c n] assms show ?thesis by auto
next
  case True
  show ?thesis
  proof (cases "news_totals (st ! a) k c")
    case (Inl e)
    from news_st_error [OF True Inl, of n] assms show ?thesis by auto
  next
    case (Inr t)
    from news_totals_shape [OF Inr] Inr obtain f where
      t: "news_totals (st ! a) k c = Inr (tabulate f (group_keys (st ! a) k))" by auto
    show ?thesis
    proof (cases "n = - 1")
      case n: True
      from news_st_all [OF True t] news_all [OF True t] assms n show ?thesis by auto
    next
      case n: False
      from news_st_top [OF True t n] news_top [OF True t n] assms show ?thesis by auto
    qed
  qed
qed

lemma grown_store:
  assumes "zs \<noteq> []" and "s = length st + (length zs - 1)"
  shows "length st \<le> s" and "s < length (st @ zs)" and "(st @ zs) ! s = last zs"
    and "\<forall>b<length st. mutate (st @ zs) s x ! b = st ! b"
  using assms by (simp_all add: nth_append mutate_def last_conv_nth)

lemma history_st_frame:
  assumes "a < length st" and "get_top_n_by_history_st st a k d n = (st', r)"
  shows "st' ! a = st ! a \<and> (\<forall>b<length st. st' ! b = st ! b) \<and>
            (\<forall>s keys. r = Inr (s, keys) \<longrightarrow>
               s \<noteq> a \<and> length st \<le> s \<and> s < length st' \<and>
               get_top_n_by_history (st ! a) k d n = Inr (st' ! s, keys) \<and>
               (\<forall>x. mutate st' s x ! a = st ! a) \<and>
               (\<forall>x. \<forall>b<length st. mutate st' s x ! b = st ! b))"
proof -
  from history_st_result [OF assms(2)] obtain zs where z: "st' = st @ zs"
    and res: "\<forall>s keys. r = Inr (s, keys) \<longrightarrow>
              zs \<noteq> [] \<and> s = length st + (length zs - 1) \<and>
              get_top_n_by_history (st ! a) k d n = Inr (last zs, keys)"
    by blast
  have old: "\<forall>b<length st. st' ! b = st ! b" by (simp add: z nth_append)
  with assms(1) have inp: "st' ! a = st ! a" by simp
  have new: "s \<noteq> a \<and> length st \<le> s \<and> s < length st' \<and>
               get_top_n_by_history (st ! a) k d n = Inr (st' ! s, keys) \<and>
               (\<forall>x. mutate st' s x ! a = st ! a) \<and>
               (\<forall>x. \<forall>b<length st. mutate st' s x ! b = st ! b)"
    if "r = Inr (s, keys)" for s keys
  proof -
    from res that have nz: "zs \<noteq> []" and s: "s = length st + (length zs - 1)"
      and v: "get_top_n_by_history (st ! a) k d n = Inr (last zs, keys)"
      by blast+
    from grown_store [OF nz s] v assms(1) show ?thesis unfolding z by simp
  qed
  from inp old new show ?thesis by blast
qed

lemma news_st_frame:
  assumes "a < length st" and "get_top_n_by_news_st st a k c n = (st'', r')"
  shows "st'' ! a = st ! a \<and> (\<forall>b<length st. st'' ! b = st ! b) \<and>
            (\<forall>s keys totals. r' = Inr (s, keys, totals) \<longrightarrow>
               s \<noteq> a \<and> length st \<le> s \<and> s < length st'' \<and>
               get_top_n_by_news (st ! a) k c n = Inr (st'' ! s, keys, totals) \<and>
               (\<forall>x. mutate st'' s x ! a = st ! a) \<and>
               (\<forall>x. \<forall>b<length st. mutate st'' s x ! b = st ! b))"
proof -
  from news_st_result [OF assms(2)] obtain zs where z: "st'' = st @ zs"
    and res: "\<forall>s keys totals. r' = Inr (s, keys, totals) \<longrightarrow>
              zs \<noteq> [] \<and> s = length st + (length zs - 1) \<and>
              get_top_n_by_news (st ! a) k c n = Inr (last zs, keys, totals)"
    by blast
  have old: "\<forall>b<length st. st'' ! b = st ! b" by (simp add: z nth_append)
  with assms(1) have inp: "st'' ! a = st ! a" by simp
  have new: "s \<noteq> a \<and> length st \<le> s \<and> s < length st'' \<and>
               get_top_n_by_news (st ! a) k c n = Inr (st'' ! s, keys, totals) \<and>
               (\<forall>x. mutate st'' s x ! a = st ! a) \<and>
               (\<forall>x. \<forall>b<length st. mutate st'' s x ! b = st ! b)"
    if "r' = Inr (s, keys, totals)" for s keys totals
  proof -
    from res that have nz: "zs \<noteq> []" and s: "s = length st + (length zs - 1)"
      and v: "get_top_n_by_news (st ! a) k c n = Inr (last zs, keys, totals)"
      by blast+
    from grown_store [OF nz s] v assms(1) show ?thesis unfolding z by simp
  qed
  from inp old new show ?thesis by blast
qed

text \<open>
  C9. Let \<open>a\<close> be the reference of the input, a frame of the data model, in the store
  \<open>st\<close>. After a call of either
  ranker, the frame at \<open>a\<close>, and at every other reference the store had, is the frame that
  was there before: the input has the rows, the columns and the order it had. When the
  call returns a subset, its reference \<open>s\<close> is not \<open>a\<close> and is no reference the store
  had: the frame was made by \<^verbatim>\<open>copy()\<close>, also when \<open>n = -1\<close>, where the subset has the
  contents of the input. The frame at \<open>s\<close> is the subset the ranker computes from the
  input, and assigning any frame to \<open>s\<close> leaves the input, and every frame the store had,
  as it was.
\<close>

theorem input_not_mutated:
  assumes "a < length st" and "wf_frame (st ! a)"
  shows "(get_top_n_by_history_st st a k d n = (st', r) \<longrightarrow>
            st' ! a = st ! a \<and> (\<forall>b<length st. st' ! b = st ! b) \<and>
            (\<forall>s keys. r = Inr (s, keys) \<longrightarrow>
               s \<noteq> a \<and> length st \<le> s \<and> s < length st' \<and>
               get_top_n_by_history (st ! a) k d n = Inr (st' ! s, keys) \<and>
               (\<forall>x. mutate st' s x ! a = st ! a) \<and>
               (\<forall>x. \<forall>b<length st. mutate st' s x ! b = st ! b))) \<and>
         (get_top_n_by_news_st st a k c n = (st'', r') \<longrightarrow>
            st'' ! a = st ! a \<and> (\<forall>b<length st. st'' ! b = st ! b) \<and>
            (\<forall>s keys totals. r' = Inr (s, keys, totals) \<longrightarrow>
               s \<noteq> a \<and> length st \<le> s \<and> s < length st'' \<and>
               get_top_n_by_news (st ! a) k c n = Inr (st'' ! s, keys, totals) \<and>
               (\<forall>x. mutate st'' s x ! a = st ! a) \<and>
               (\<forall>x. \<forall>b<length st. mutate st'' s x ! b = st ! b)))"
proof (rule conjI)
  show "get_top_n_by_history_st st a k d n = (st', r) \<longrightarrow>
            st' ! a = st ! a \<and> (\<forall>b<length st. st' ! b = st ! b) \<and>
            (\<forall>s keys. r = Inr (s, keys) \<longrightarrow>
               s \<noteq> a \<and> length st \<le> s \<and> s < length st' \<and>
               get_top_n_by_history (st ! a) k d n = Inr (st' ! s, keys) \<and>
               (\<forall>x. mutate st' s x ! a = st ! a) \<and>
               (\<forall>x. \<forall>b<length st. mutate st' s x ! b = st ! b))"
    by (rule impI) (rule history_st_frame [OF assms(1)])
  show "get_top_n_by_news_st st a k c n = (st'', r') \<longrightarrow>
            st'' ! a = st ! a \<and> (\<forall>b<length st. st'' ! b = st ! b) \<and>
            (\<forall>s keys totals. r' = Inr (s, keys, totals) \<longrightarrow>
               s \<noteq> a \<and> length st \<le> s \<and> s < length st'' \<and>
               get_top_n_by_news (st ! a) k c n = Inr (st'' ! s, keys, totals) \<and>
               (\<forall>x. mutate st'' s x ! a = st ! a) \<and>
               (\<forall>x. \<forall>b<length st. mutate st'' s x ! b = st ! b))"
    by (rule impI) (rule news_st_frame [OF assms(1)])
qed

theorem input_not_mutated_witness:
  "(1::nat) < length [news, prices] \<and> wf_frame ([news, prices] ! 1) \<and>
   get_top_n_by_history_st [news, prices] 1 ''ticker'' ''date'' (- 1) =
     ([news, prices, prices], Inr (2, [Str ''B'', Str ''A'', Str ''C''])) \<and>
   [news, prices, prices] ! 0 = [news, prices] ! 0 \<and>
   [news, prices, prices] ! 1 = [news, prices] ! 1 \<and>
   (2::nat) \<noteq> 1 \<and>
   mutate [news, prices, prices] 2 news ! 1 = [news, prices] ! 1"
proof -
  have a: "(1::nat) < length [news, prices]" by simp
  have w: "wf_frame ([news, prices] ! 1)" by code_simp
  have e: "get_top_n_by_history_st [news, prices] 1 ''ticker'' ''date'' (- 1) =
     ([news, prices, prices], Inr (2, [Str ''B'', Str ''A'', Str ''C'']))"
    by code_simp
  note t = input_not_mutated [OF a w, of "''ticker''" "''date''" "- 1" "[news, prices, prices]"
      "Inr (2, [Str ''B'', Str ''A'', Str ''C''])" None "[]" "Inl TypeError",
      THEN conjunct1, rule_format, OF e]
  from t [THEN conjunct2, THEN conjunct1]
  have o: "[news, prices, prices] ! 0 = [news, prices] ! 0 \<and>
      [news, prices, prices] ! 1 = [news, prices] ! 1"
    by simp
  from t [THEN conjunct2, THEN conjunct2, rule_format, of 2 "[Str ''B'', Str ''A'', Str ''C'']"]
  have m: "mutate [news, prices, prices] 2 news ! 1 = [news, prices] ! 1" by simp
  from a w e o m show ?thesis by simp
qed

end
